theory Spec2Isabelle
  imports Main "HOL-Library.AList"
begin

section \<open>Message values\<close>

text \<open>
  The consumer receives decoded JSON: every value the handlers of
  \<^verbatim>\<open>resultsdbupdater/utils.py\<close> touch is \<^verbatim>\<open>None\<close>, a boolean, an
  integer, a string, a list or a dictionary. A dictionary is an association list in
  insertion order; a lookup reads the first entry of a key, and a decoded dictionary holds
  each key once. Strings are lists of 8-bit characters: case mapping and the digits of
  a pattern are those of ASCII. Decoded floating-point numbers are not part of the model.
\<close>

datatype json =
    JNull
  | JBool bool
  | JInt int
  | JStr string
  | JList "json list"
  | JDict "(string \<times> json) list"

text \<open>The exceptions the handlers can end with; \<open>HTTPError\<close> stands for every
  failure of a request to the results API (\<^verbatim>\<open>raise_for_status\<close>, a timeout, a
  response that is not JSON).\<close>

datatype py_error = KeyError | TypeError | AttributeError | ValueError | HTTPError

definition bindE :: "py_error + 'a \<Rightarrow> ('a \<Rightarrow> py_error + 'b) \<Rightarrow> py_error + 'b" where
  "bindE m f = (case m of Inl e \<Rightarrow> Inl e | Inr x \<Rightarrow> f x)"

subsection \<open>Dynamic operations of the source language\<close>

text \<open>\<^verbatim>\<open>d[k]\<close> with a string key: a missing key of a dictionary raises
  \<^verbatim>\<open>KeyError\<close>, every other value raises \<^verbatim>\<open>TypeError\<close>.\<close>

definition getitem :: "json \<Rightarrow> string \<Rightarrow> py_error + json" where
  "getitem d k =
     (case d of
        JDict kvs \<Rightarrow> (case map_of kvs k of None \<Rightarrow> Inl KeyError | Some v \<Rightarrow> Inr v)
      | _ \<Rightarrow> Inl TypeError)"

text \<open>\<^verbatim>\<open>d.get(k, default)\<close>: only dictionaries have the method.\<close>

definition get_method :: "json \<Rightarrow> string \<Rightarrow> json \<Rightarrow> py_error + json" where
  "get_method d k dflt =
     (case d of
        JDict kvs \<Rightarrow> (case map_of kvs k of None \<Rightarrow> Inr dflt | Some v \<Rightarrow> Inr v)
      | _ \<Rightarrow> Inl AttributeError)"

text \<open>\<^verbatim>\<open>d[k1][k2]\<close> and \<^verbatim>\<open>d[k1].get(k2)\<close>.\<close>

definition getitem2 :: "json \<Rightarrow> string \<Rightarrow> string \<Rightarrow> py_error + json" where
  "getitem2 d k1 k2 = bindE (getitem d k1) (\<lambda>x. getitem x k2)"

definition getitem_get :: "json \<Rightarrow> string \<Rightarrow> string \<Rightarrow> py_error + json" where
  "getitem_get d k1 k2 = bindE (getitem d k1) (\<lambda>x. get_method x k2 JNull)"

text \<open>\<^verbatim>\<open>d[k] = v\<close>: an existing key keeps its place, a new key goes last.\<close>

definition setitem :: "json \<Rightarrow> string \<Rightarrow> json \<Rightarrow> py_error + json" where
  "setitem d k v =
     (case d of
        JDict kvs \<Rightarrow> Inr (JDict (AList.update k v kvs))
      | _ \<Rightarrow> Inl TypeError)"

text \<open>Truth value of a value in a condition.\<close>

fun truthy :: "json \<Rightarrow> bool" where
  "truthy JNull = False"
| "truthy (JBool b) = b"
| "truthy (JInt n) = (n \<noteq> 0)"
| "truthy (JStr s) = (s \<noteq> [])"
| "truthy (JList xs) = (xs \<noteq> [])"
| "truthy (JDict kvs) = (kvs \<noteq> [])"

text \<open>A method of \<^verbatim>\<open>str\<close> called on a value: anything but a string raises
  \<^verbatim>\<open>AttributeError\<close>.\<close>

definition as_str :: "json \<Rightarrow> py_error + string" where
  "as_str v = (case v of JStr s \<Rightarrow> Inr s | _ \<Rightarrow> Inl AttributeError)"

definition startswith :: "string \<Rightarrow> string \<Rightarrow> bool" where
  "startswith s p = (take (length p) s = p)"

definition endswith :: "string \<Rightarrow> string \<Rightarrow> bool" where
  "endswith s p = (length p \<le> length s \<and> drop (length s - length p) s = p)"

definition lower_char :: "char \<Rightarrow> char" where
  "lower_char c =
     (case map_of (zip ''ABCDEFGHIJKLMNOPQRSTUVWXYZ'' ''abcdefghijklmnopqrstuvwxyz'') c of
        Some l \<Rightarrow> l
      | None \<Rightarrow> c)"

definition lower :: "string \<Rightarrow> string" where
  "lower s = map lower_char s"

text \<open>\<^verbatim>\<open>s.split(c)\<close>: one component more than there are separators (the
  result is never empty, so the first case below does not occur).\<close>

fun split_on :: "char \<Rightarrow> string \<Rightarrow> string list" where
  "split_on c [] = [[]]"
| "split_on c (x # xs) =
     (case split_on c xs of
        [] \<Rightarrow> [[x]]
      | w # ws \<Rightarrow> if x = c then [] # w # ws else (x # w) # ws)"

text \<open>\<^verbatim>\<open>s.split(c, 1)\<close>: split at the first separator only.\<close>

definition split_once :: "char \<Rightarrow> string \<Rightarrow> string list" where
  "split_once c s =
     (if c \<in> set s then [takeWhile (\<lambda>x. x \<noteq> c) s, tl (dropWhile (\<lambda>x. x \<noteq> c) s)]
      else [s])"

text \<open>\<^verbatim>\<open>p in s\<close> for two strings.\<close>

fun is_substring :: "string \<Rightarrow> string \<Rightarrow> bool" where
  "is_substring p [] = (p = [])"
| "is_substring p (x # xs) = (startswith (x # xs) p \<or> is_substring p xs)"

section \<open>Outcome classifier\<close>

text \<open>\<^verbatim>\<open>_test_result_outcome\<close> (lines 202 to 224). The mapping
  \<^verbatim>\<open>broken_mapping\<close> is looked up with the lower-cased status and defaults to
  the status as it came.\<close>

definition broken_mapping :: "(string \<times> json) list" where
  "broken_mapping =
     [(''pass'', JStr ''PASSED''), (''fail'', JStr ''FAILED''), (''failure'', JStr ''FAILED'')]"

definition test_result_outcome :: "json \<Rightarrow> py_error + json" where
  "test_result_outcome message =
     bindE (getitem message ''topic'') (\<lambda>topic.
     bindE (as_str topic) (\<lambda>t.
       if endswith t ''.error'' then Inr (JStr ''FAILED'')
       else if endswith t ''.queued'' then Inr (JStr ''QUEUED'')
       else if endswith t ''.running'' then Inr (JStr ''RUNNING'')
       else
         bindE (getitem message ''body'') (\<lambda>body.
         bindE (getitem body ''msg'') (\<lambda>m.
         bindE (getitem m ''status'') (\<lambda>outcome.
         bindE (as_str outcome) (\<lambda>s.
           Inr (case map_of broken_mapping (lower s) of
                  None \<Rightarrow> outcome | Some v \<Rightarrow> v)))))))"

section \<open>Topic and namespace validator\<close>

text \<open>What a handler does besides returning: it logs, it queries the results API
  for a group, and it posts results. A posted result is the JSON body of
  \<^verbatim>\<open>create_result\<close>.\<close>

record submission =
  r_testcase :: json
  r_outcome :: json
  r_ref_url :: json
  r_data :: json
  r_groups :: json
  r_note :: json

datatype event = LogWarning | LogError | GroupQuery json | Submit submission

type_synonym 'a io = "event list \<times> (py_error + 'a)"

definition return_io :: "'a \<Rightarrow> 'a io" where
  "return_io x = ([], Inr x)"

definition lift_io :: "py_error + 'a \<Rightarrow> 'a io" where
  "lift_io r = ([], r)"

definition emit :: "event \<Rightarrow> unit io" where
  "emit ev = ([ev], Inr ())"

definition bind_io :: "'a io \<Rightarrow> ('a \<Rightarrow> 'b io) \<Rightarrow> 'b io" where
  "bind_io m f =
     (case m of
        (es, Inl e) \<Rightarrow> (es, Inl e)
      | (es, Inr x) \<Rightarrow> (case f x of (es', r) \<Rightarrow> (es @ es', r)))"

fun submissions :: "event list \<Rightarrow> submission list" where
  "submissions [] = []"
| "submissions (Submit r # es) = r # submissions es"
| "submissions (_ # es) = submissions es"

text \<open>\<^verbatim>\<open>namespace_from_topic\<close> (lines 227 to 244); \<open>None\<close> is the source's
  \<^verbatim>\<open>None\<close>.\<close>

definition topic_prefix :: string where
  "topic_prefix = ''/topic/VirtualTopic.eng.ci.''"

definition namespace_from_topic :: "string \<Rightarrow> string option" where
  "namespace_from_topic topic =
     (if \<not> startswith topic topic_prefix then None
      else let topic_components = split_on CHR ''.'' topic in
        if length topic_components \<noteq> 7 then None
        else Some (topic_components ! 3))"

text \<open>\<^verbatim>\<open>namespace_from_testcase_name\<close> (lines 247 to 253).\<close>

definition namespace_from_testcase_name :: "string \<Rightarrow> string" where
  "namespace_from_testcase_name testcase_name = hd (split_once CHR ''.'' testcase_name)"

text \<open>\<^verbatim>\<open>verify_topic_and_testcase_name\<close> (lines 256 to 310). The test
  \<^verbatim>\<open>not topic_namespace\<close> holds for \<^verbatim>\<open>None\<close> and for the empty string.\<close>

definition verify_topic_and_testcase_name :: "string \<Rightarrow> string \<Rightarrow> bool io" where
  "verify_topic_and_testcase_name topic testcase_name =
     (case namespace_from_topic topic of
        None \<Rightarrow> bind_io (emit LogWarning) (\<lambda>_. return_io True)
      | Some topic_namespace \<Rightarrow>
          if topic_namespace = [] then bind_io (emit LogWarning) (\<lambda>_. return_io True)
          else if namespace_from_testcase_name testcase_name \<noteq> topic_namespace
          then bind_io (emit LogWarning) (\<lambda>_. return_io False)
          else return_io True)"

section \<open>The results API and the parts of the runtime left open\<close>

text \<open>
  The handlers read four things they do not compute. They are parameters of the model:
  whether a POST of a result succeeds, what the decoded body of the group query is (or
  that the request failed), the text \<^verbatim>\<open>str.format\<close> gives for a value that is
  not a string, and the value of \<^verbatim>\<open>int\<close> on a string (\<open>None\<close> where it
  raises \<^verbatim>\<open>ValueError\<close>). The result of the one call of \<^verbatim>\<open>uuid.uuid4\<close> each
  handler makes is an argument of the handler.
\<close>

record env =
  post_ok :: "submission \<Rightarrow> bool"
  groups_response :: "json \<Rightarrow> py_error + json"
  py_repr :: "json \<Rightarrow> string"
  int_of_str :: "string \<Rightarrow> int option"

definition py_str :: "env \<Rightarrow> json \<Rightarrow> string" where
  "py_str env v = (case v of JStr s \<Rightarrow> s | _ \<Rightarrow> py_repr env v)"

text \<open>\<^verbatim>\<open>int(v)\<close>.\<close>

definition py_int :: "env \<Rightarrow> json \<Rightarrow> py_error + int" where
  "py_int env v =
     (case v of
        JInt n \<Rightarrow> Inr n
      | JBool b \<Rightarrow> Inr (if b then 1 else 0)
      | JStr s \<Rightarrow> (case int_of_str env s of None \<Rightarrow> Inl ValueError | Some n \<Rightarrow> Inr n)
      | _ \<Rightarrow> Inl TypeError)"

text \<open>\<^verbatim>\<open>len(v)\<close> and \<^verbatim>\<open>v[0]\<close>.\<close>

definition py_len :: "json \<Rightarrow> py_error + nat" where
  "py_len v =
     (case v of
        JList xs \<Rightarrow> Inr (length xs)
      | JDict kvs \<Rightarrow> Inr (length kvs)
      | JStr s \<Rightarrow> Inr (length s)
      | _ \<Rightarrow> Inl TypeError)"

definition first_item :: "json \<Rightarrow> py_error + json" where
  "first_item v =
     (case v of
        JList (x # xs) \<Rightarrow> Inr x
      | JStr (c # cs) \<Rightarrow> Inr (JStr [c])
      | JDict kvs \<Rightarrow> Inl KeyError
      | _ \<Rightarrow> Inl TypeError)"

text \<open>\<^verbatim>\<open>k in v\<close> for a string \<open>k\<close>: a key of a dictionary, an element of a
  list, a substring of a string.\<close>

definition py_contains :: "string \<Rightarrow> json \<Rightarrow> py_error + bool" where
  "py_contains k v =
     (case v of
        JDict kvs \<Rightarrow> Inr (k \<in> set (map fst kvs))
      | JList xs \<Rightarrow> Inr (JStr k \<in> set xs)
      | JStr s \<Rightarrow> Inr (is_substring k s)
      | _ \<Rightarrow> Inl TypeError)"

text \<open>The values a \<^verbatim>\<open>for\<close> loop over \<open>v\<close> sees: the elements of a list, the
  keys of a dictionary, the characters of a string.\<close>

definition py_iter :: "json \<Rightarrow> py_error + json list" where
  "py_iter v =
     (case v of
        JList xs \<Rightarrow> Inr xs
      | JDict kvs \<Rightarrow> Inr (map (\<lambda>kv. JStr (fst kv)) kvs)
      | JStr s \<Rightarrow> Inr (map (\<lambda>c. JStr [c]) s)
      | _ \<Rightarrow> Inl TypeError)"

text \<open>\<^verbatim>\<open>a or b\<close>.\<close>

definition py_or :: "json \<Rightarrow> json \<Rightarrow> json" where
  "py_or a b = (if truthy a then a else b)"

text \<open>\<^verbatim>\<open>create_result\<close> (lines 77 to 91): one POST, then
  \<^verbatim>\<open>raise_for_status\<close>.\<close>

definition create_result ::
  "env \<Rightarrow> json \<Rightarrow> json \<Rightarrow> json \<Rightarrow> json \<Rightarrow> json \<Rightarrow> json \<Rightarrow> unit io" where
  "create_result env testcase outcome ref_url data groups note =
     (let req = \<lparr>r_testcase = testcase, r_outcome = outcome, r_ref_url = ref_url,
                 r_data = data, r_groups = py_or groups (JList []),
                 r_note = py_or note (JStr [])\<rparr>
      in ([Submit req], if post_ok env req then Inr () else Inl HTTPError))"

text \<open>\<^verbatim>\<open>get_first_group\<close> (lines 94 to 104).\<close>

definition get_first_group :: "env \<Rightarrow> json \<Rightarrow> json io" where
  "get_first_group env description =
     bind_io (emit (GroupQuery description)) (\<lambda>_.
     lift_io
       (bindE (groups_response env description) (\<lambda>body.
        bindE (getitem body ''data'') (\<lambda>d.
        bindE (py_len d) (\<lambda>n.
          if n > 0 then first_item d else Inr (JDict []))))))"

text \<open>\<^verbatim>\<open>update_publisher_id\<close> (lines 21 to 28) changes \<^verbatim>\<open>data\<close> in place;
  the model returns the changed dictionary.\<close>

definition update_publisher_id :: "json \<Rightarrow> json \<Rightarrow> py_error + json" where
  "update_publisher_id data msg =
     bindE (getitem msg ''headers'') (\<lambda>headers.
     bindE (get_method headers ''JMSXUserID'' JNull) (\<lambda>msg_publisher_id.
       if truthy msg_publisher_id then setitem data ''publisher_id'' msg_publisher_id
       else Inr data))"

section \<open>The CI-metrics pipeline\<close>

text \<open>\<^verbatim>\<open>s.rstrip('/')\<close> and \<^verbatim>\<open>s.split(',')\<close> as a list value.\<close>

definition rstrip :: "char \<Rightarrow> string \<Rightarrow> string" where
  "rstrip c s = rev (dropWhile (\<lambda>x. x = c) (rev s))"

definition split_json :: "char \<Rightarrow> string \<Rightarrow> json" where
  "split_json c s = JList (map JStr (split_on c s))"

text \<open>The local variables of \<^verbatim>\<open>handle_ci_metrics\<close> that the loop over the
  sub-tests reads (lines 109 to 146).\<close>

record ci_metrics_vars =
  v_team :: json
  v_test_name :: json
  v_testcase_url :: json
  v_group_tests_ref_url :: json
  v_component :: json
  v_test_type :: json
  v_recipients :: json
  v_ci_tier :: json
  v_artifact :: json
  v_brew_task_id :: json
  v_groups :: json

text \<open>Lines 150 to 154: the outcome of one sub-test. The conjunction is evaluated
  left to right, so \<^verbatim>\<open>int\<close> runs only when the key is there.\<close>

definition sub_test_outcome :: "env \<Rightarrow> json \<Rightarrow> py_error + json" where
  "sub_test_outcome env test =
     bindE (py_contains ''failed'' test) (\<lambda>has_failed.
       if \<not> has_failed then Inr (JStr ''FAILED'')
       else
         bindE (getitem test ''failed'') (\<lambda>f.
         bindE (py_int env f) (\<lambda>n.
           if n = 0 then Inr (JStr ''PASSED'') else Inr (JStr ''FAILED''))))"

text \<open>Lines 156 to 167: the test case and the seven keys written into the sub-test
  record itself.\<close>

definition sub_test_data :: "ci_metrics_vars \<Rightarrow> json \<Rightarrow> py_error + json" where
  "sub_test_data vs test =
     bindE (setitem test ''item'' (v_component vs)) (\<lambda>t1.
     bindE (setitem t1 ''type'' (v_test_type vs)) (\<lambda>t2.
     bindE (setitem t2 ''recipients'' (v_recipients vs)) (\<lambda>t3.
     bindE (setitem t3 ''CI_tier'' (v_ci_tier vs)) (\<lambda>t4.
     bindE (setitem t4 ''job_name'' (v_test_name vs)) (\<lambda>t5.
     bindE (setitem t5 ''artifact'' (v_artifact vs)) (\<lambda>t6.
     setitem t6 ''brew_task_id'' (v_brew_task_id vs)))))))"

text \<open>One pass of the loop body (lines 150 to 170); it returns the sub-test's
  outcome.\<close>

definition ci_metrics_test :: "env \<Rightarrow> json \<Rightarrow> ci_metrics_vars \<Rightarrow> json \<Rightarrow> json io" where
  "ci_metrics_test env msg vs test =
     bind_io (lift_io (sub_test_outcome env test)) (\<lambda>outcome.
     bind_io (lift_io (get_method test ''executor'' (JStr ''unknown''))) (\<lambda>executor.
     bind_io (lift_io (sub_test_data vs test)) (\<lambda>test1.
     bind_io (lift_io (update_publisher_id test1 msg)) (\<lambda>test2.
     bind_io (create_result env
                (JDict [(''name'', JStr (py_str env (v_team vs) @ ''.'' @
                                         py_str env (v_test_name vs) @ ''.'' @
                                         py_str env executor)),
                        (''ref_url'', v_testcase_url vs)])
                outcome (v_group_tests_ref_url vs) test2 (v_groups vs) JNull) (\<lambda>_.
     return_io outcome)))))"

text \<open>The loop (lines 149 to 170), carrying \<^verbatim>\<open>overall_outcome\<close>.\<close>

fun ci_metrics_tests :: "env \<Rightarrow> json \<Rightarrow> ci_metrics_vars \<Rightarrow> json list \<Rightarrow> json \<Rightarrow> json io" where
  "ci_metrics_tests env msg vs [] overall_outcome = return_io overall_outcome"
| "ci_metrics_tests env msg vs (test # rest) overall_outcome =
     bind_io (ci_metrics_test env msg vs test) (\<lambda>outcome.
       ci_metrics_tests env msg vs rest
         (if outcome = JStr ''FAILED'' then JStr ''FAILED'' else overall_outcome))"

text \<open>Lines 108 to 146: the variables read from the message before the loop, and
  the value of \<^verbatim>\<open>tests\<close>.\<close>

definition ci_metrics_read :: "string \<Rightarrow> json \<Rightarrow> (ci_metrics_vars \<times> json) io" where
  "ci_metrics_read uuid4 msg =
     bind_io (lift_io (getitem2 msg ''headers'' ''message-id'')) (\<lambda>msg_id.
     bind_io (lift_io (getitem2 msg ''body'' ''msg'')) (\<lambda>m.
     bind_io (lift_io (get_method m ''team'' (JStr ''unassigned''))) (\<lambda>team.
     bind_io (if team = JStr ''unassigned'' then emit LogWarning else return_io ()) (\<lambda>_.
     bind_io (lift_io (py_contains ''job_name'' m)) (\<lambda>has_job_name.
     bind_io (if has_job_name then lift_io (getitem m ''job_name'')
              else bind_io (lift_io (getitem m ''job_names'')) (\<lambda>names.
                   bind_io (emit LogWarning) (\<lambda>_. return_io names))) (\<lambda>test_name.
     bind_io (lift_io (getitem m ''jenkins_job_url'')) (\<lambda>testcase_url.
     bind_io (lift_io (getitem m ''jenkins_build_url'')) (\<lambda>group_ref_url.
     bind_io (lift_io (get_method m ''build_type'' (JStr ''unknown''))) (\<lambda>build_type.
     bind_io (lift_io (get_method m ''artifact'' (JStr ''unknown''))) (\<lambda>artifact.
     bind_io (lift_io (get_method m ''brew_task_id'' (JStr ''unknown''))) (\<lambda>brew_task_id.
     bind_io (lift_io (getitem m ''tests'')) (\<lambda>tests.
     bind_io (lift_io (as_str group_ref_url)) (\<lambda>build_url.
     bind_io (lift_io (get_method m ''component'' (JStr ''unknown''))) (\<lambda>component.
     bind_io (lift_io (bindE (get_method m ''recipients'' (JStr ''unknown'')) as_str)) (\<lambda>rs.
     bind_io (lift_io (get_method m ''CI_tier'' (JList [JStr ''unknown'']))) (\<lambda>ci_tier.
     (let test_type0 = (if brew_task_id \<noteq> JStr ''unknown'' then ''koji_build'' else ''unknown'');
          test_type = (if build_type = JStr ''scratch'' then test_type0 @ ''_scratch''
                       else test_type0)
      in return_io
        (\<lparr>v_team = team, v_test_name = test_name, v_testcase_url = testcase_url,
          v_group_tests_ref_url = JStr (rstrip CHR ''/'' build_url @ ''/console''),
          v_component = component, v_test_type = JStr test_type,
          v_recipients = split_json CHR '','' rs, v_ci_tier = ci_tier,
          v_artifact = artifact, v_brew_task_id = brew_task_id,
          v_groups = JList [JDict [(''uuid'', JStr uuid4), (''ref_url'', group_ref_url)]]\<rparr>,
         tests))))))))))))))))))"

text \<open>Lines 172 to 188: the overall result.\<close>

definition ci_metrics_overall :: "env \<Rightarrow> json \<Rightarrow> ci_metrics_vars \<Rightarrow> json \<Rightarrow> unit io" where
  "ci_metrics_overall env msg vs overall_outcome =
     bind_io (lift_io (update_publisher_id
                (JDict [(''item'', v_component vs), (''type'', v_test_type vs),
                        (''recipients'', v_recipients vs), (''CI_tier'', v_ci_tier vs),
                        (''job_name'', v_test_name vs), (''artifact'', v_artifact vs),
                        (''brew_task_id'', v_brew_task_id vs)]) msg)) (\<lambda>result_data.
     create_result env
       (JDict [(''name'', JStr (py_str env (v_team vs) @ ''.'' @ py_str env (v_test_name vs))),
               (''ref_url'', v_testcase_url vs)])
       overall_outcome (v_group_tests_ref_url vs) result_data (v_groups vs) JNull)"

text \<open>\<^verbatim>\<open>handle_ci_metrics\<close> (lines 107 to 188).\<close>

definition handle_ci_metrics :: "env \<Rightarrow> string \<Rightarrow> json \<Rightarrow> unit io" where
  "handle_ci_metrics env uuid4 msg =
     bind_io (ci_metrics_read uuid4 msg) (\<lambda>(vs, tests).
     bind_io (lift_io (py_iter tests)) (\<lambda>ts.
     bind_io (ci_metrics_tests env msg vs ts (JStr ''PASSED'')) (\<lambda>overall_outcome.
       ci_metrics_overall env msg vs overall_outcome)))"

section \<open>The unified-bus pipeline\<close>

subsection \<open>The NSVC pattern\<close>

text \<open>
  \<^verbatim>\<open>re.match('^(.*):(.*):(.*):(.*)', s)\<close>. A dot matches every character but the
  newline, and each \<^verbatim>\<open>(.*)\<close> is greedy: the matcher tries the longest candidate
  first and backtracks to shorter ones. \<open>colon_at k s i\<close> is the attempt that ends a
  group at index \<open>i\<close>, where a colon must stand, and matches the rest of the pattern,
  \<open>k\<close>, behind it. The last group runs to the end of the line.
\<close>

definition newline :: char where
  "newline = CHR 0x0A"

definition colon_at :: "(string \<Rightarrow> string list option) \<Rightarrow> string \<Rightarrow> nat \<Rightarrow> string list option" where
  "colon_at k s i =
     (if i < length s \<and> newline \<notin> set (take i s) \<and> s ! i = CHR '':''
      then map_option (\<lambda>gs. take i s # gs) (k (drop (Suc i) s))
      else None)"

fun greedy_colon :: "(string \<Rightarrow> string list option) \<Rightarrow> string \<Rightarrow> nat \<Rightarrow> string list option" where
  "greedy_colon k s 0 = colon_at k s 0"
| "greedy_colon k s (Suc i) =
     (case colon_at k s (Suc i) of
        Some gs \<Rightarrow> Some gs
      | None \<Rightarrow> greedy_colon k s i)"

primrec nsvc_groups :: "nat \<Rightarrow> string \<Rightarrow> string list option" where
  "nsvc_groups 0 s = Some [takeWhile (\<lambda>c. c \<noteq> newline) s]"
| "nsvc_groups (Suc n) s = greedy_colon (nsvc_groups n) s (length s)"

definition nsvc_match :: "string \<Rightarrow> string list option" where
  "nsvc_match s = nsvc_groups 3 s"

text \<open>\<^verbatim>\<open>stream.replace('-', '_')\<close>.\<close>

definition replace_char :: "char \<Rightarrow> char \<Rightarrow> string \<Rightarrow> string" where
  "replace_char a b s = map (\<lambda>c. if c = a then b else c) s"

text \<open>Lines 426 to 436 on a string: \<open>None\<close> is the \<^verbatim>\<open>AttributeError\<close> of
  \<^verbatim>\<open>None.groups()\<close>, which the handler catches.\<close>

definition nsvc_item :: "string \<Rightarrow> string option" where
  "nsvc_item s =
     (case nsvc_match s of
        Some [name, stream, version, context] \<Rightarrow>
          Some (name @ ''-'' @ replace_char CHR ''-'' CHR ''_'' stream @ ''-'' @ version
                @ ''.'' @ context)
      | _ \<Rightarrow> None)"

subsection \<open>Building \<^verbatim>\<open>result_data\<close>\<close>

text \<open>The values of a dictionary display or of a tuple of pairs are evaluated in
  order; the first one that raises ends the evaluation.\<close>

fun eval_fields :: "(string \<times> (py_error + json)) list \<Rightarrow> py_error + (string \<times> json) list" where
  "eval_fields [] = Inr []"
| "eval_fields ((k, c) # rest) =
     bindE c (\<lambda>v. bindE (eval_fields rest) (\<lambda>vs. Inr ((k, v) # vs)))"

text \<open>\<^verbatim>\<open>{key: value for key, value in (...) if value is not None}\<close>.\<close>

definition not_none_dict :: "(string \<times> (py_error + json)) list \<Rightarrow> py_error + json" where
  "not_none_dict pairs =
     bindE (eval_fields pairs) (\<lambda>kvs. Inr (JDict (filter (\<lambda>kv. snd kv \<noteq> JNull) kvs)))"

text \<open>\<^verbatim>\<open>{key: value, ...}\<close>: every value is kept.\<close>

definition plain_dict :: "(string \<times> (py_error + json)) list \<Rightarrow> py_error + json" where
  "plain_dict pairs = bindE (eval_fields pairs) (\<lambda>kvs. Inr (JDict kvs))"

text \<open>Lines 335 to 361.\<close>

definition umb_productmd_compose :: "env \<Rightarrow> json \<Rightarrow> json \<Rightarrow> json \<Rightarrow> py_error + json" where
  "umb_productmd_compose env msg_body system item_type =
     bindE (getitem system ''architecture'') (\<lambda>architecture.
     bindE (get_method system ''variant'' JNull) (\<lambda>variant.
     bindE (getitem_get msg_body ''artifact'' ''id'') (\<lambda>artifact_id.
     bindE (if truthy artifact_id then Inr artifact_id
            else getitem2 msg_body ''artifact'' ''compose_id'') (\<lambda>compose_id.
     (let item = py_str env compose_id @ ''/'' @ py_str env (py_or variant (JStr ''unknown''))
                 @ ''/'' @ py_str env architecture
      in not_none_dict
        [(''item'', Inr (JStr item)),
         (''ci_name'', getitem2 msg_body ''ci'' ''name''),
         (''ci_team'', getitem2 msg_body ''ci'' ''team''),
         (''ci_url'', getitem2 msg_body ''ci'' ''url''),
         (''ci_irc'', getitem_get msg_body ''ci'' ''irc''),
         (''ci_email'', getitem2 msg_body ''ci'' ''email''),
         (''log'', getitem2 msg_body ''run'' ''log''),
         (''type'', Inr item_type),
         (''productmd.compose.id'', Inr compose_id),
         (''system_provider'', getitem system ''provider''),
         (''system_architecture'', Inr architecture),
         (''system_variant'', Inr variant),
         (''category'', get_method msg_body ''category'' JNull)])))))"

text \<open>Lines 363 to 384.\<close>

definition umb_component_version :: "env \<Rightarrow> json \<Rightarrow> json \<Rightarrow> py_error + json" where
  "umb_component_version env msg_body item_type =
     bindE (getitem2 msg_body ''artifact'' ''component'') (\<lambda>component.
     bindE (getitem2 msg_body ''artifact'' ''version'') (\<lambda>version.
     (let item = py_str env component @ ''-'' @ py_str env version
      in not_none_dict
        [(''item'', Inr (JStr item)),
         (''ci_name'', getitem2 msg_body ''ci'' ''name''),
         (''ci_team'', getitem2 msg_body ''ci'' ''team''),
         (''ci_url'', getitem2 msg_body ''ci'' ''url''),
         (''ci_irc'', getitem_get msg_body ''ci'' ''irc''),
         (''ci_email'', getitem2 msg_body ''ci'' ''email''),
         (''log'', getitem2 msg_body ''run'' ''log''),
         (''type'', Inr item_type),
         (''component'', Inr component),
         (''version'', Inr version),
         (''category'', get_method msg_body ''category'' JNull)])))"

text \<open>Lines 386 to 419.\<close>

definition umb_container_image :: "env \<Rightarrow> json \<Rightarrow> json \<Rightarrow> json \<Rightarrow> py_error + json" where
  "umb_container_image env msg_body system item_type =
     bindE (getitem2 msg_body ''artifact'' ''repository'') (\<lambda>repo.
     bindE (getitem2 msg_body ''artifact'' ''digest'') (\<lambda>digest.
     (let item = py_str env repo @ ''@'' @ py_str env digest
      in not_none_dict
        [(''item'', Inr (JStr item)),
         (''ci_name'', getitem2 msg_body ''ci'' ''name''),
         (''ci_team'', getitem2 msg_body ''ci'' ''team''),
         (''ci_url'', getitem2 msg_body ''ci'' ''url''),
         (''ci_irc'', getitem_get msg_body ''ci'' ''irc''),
         (''ci_environment'', getitem_get msg_body ''ci'' ''environment''),
         (''ci_email'', getitem2 msg_body ''ci'' ''email''),
         (''log'', getitem2 msg_body ''run'' ''log''),
         (''rebuild'', getitem_get msg_body ''run'' ''rebuild''),
         (''xunit'', get_method msg_body ''xunit'' JNull),
         (''type'', Inr item_type),
         (''repository'', getitem_get msg_body ''artifact'' ''repository''),
         (''digest'', getitem_get msg_body ''artifact'' ''digest''),
         (''format'', getitem_get msg_body ''artifact'' ''format''),
         (''pull_ref'', getitem_get msg_body ''artifact'' ''pull_ref''),
         (''scratch'', getitem_get msg_body ''artifact'' ''scratch''),
         (''nvr'', getitem_get msg_body ''artifact'' ''nvr''),
         (''issuer'', getitem_get msg_body ''artifact'' ''issuer''),
         (''system_os'', get_method system ''os'' JNull),
         (''system_provider'', get_method system ''provider'' JNull),
         (''system_architecture'', get_method system ''architecture'' JNull),
         (''category'', get_method msg_body ''category'' JNull)])))"

text \<open>Lines 421 to 458. The result \<open>None\<close> is the early \<^verbatim>\<open>return False\<close> after
  the caught \<^verbatim>\<open>AttributeError\<close>; a value of \<^verbatim>\<open>nsvc\<close> that is not a string
  makes \<^verbatim>\<open>re.match\<close> raise \<^verbatim>\<open>TypeError\<close>, which is not caught.\<close>

definition umb_redhat_module :: "json \<Rightarrow> json \<Rightarrow> json \<Rightarrow> py_error + json option" where
  "umb_redhat_module msg_body system item_type =
     bindE (getitem msg_body ''ci'') (\<lambda>msg_body_ci.
     bindE (getitem2 msg_body ''artifact'' ''nsvc'') (\<lambda>v.
     (case v of
        JStr s \<Rightarrow>
          (case nsvc_item s of
             None \<Rightarrow> Inr None
           | Some nsvc \<Rightarrow>
               bindE (plain_dict
                 [(''item'', Inr (JStr nsvc)),
                  (''type'', Inr item_type),
                  (''mbs_id'', getitem_get msg_body ''artifact'' ''id''),
                  (''category'', getitem msg_body ''category''),
                  (''context'', getitem2 msg_body ''artifact'' ''context''),
                  (''name'', getitem2 msg_body ''artifact'' ''name''),
                  (''nsvc'', Inr (JStr nsvc)),
                  (''stream'', getitem2 msg_body ''artifact'' ''stream''),
                  (''version'', getitem2 msg_body ''artifact'' ''version''),
                  (''issuer'', getitem_get msg_body ''artifact'' ''issuer''),
                  (''rebuild'', getitem_get msg_body ''run'' ''rebuild''),
                  (''log'', getitem2 msg_body ''run'' ''log''),
                  (''system_os'', get_method system ''os'' JNull),
                  (''system_provider'', get_method system ''provider'' JNull),
                  (''ci_name'', get_method msg_body_ci ''name'' JNull),
                  (''ci_url'', get_method msg_body_ci ''url'' JNull),
                  (''ci_team'', get_method msg_body_ci ''team'' JNull),
                  (''ci_irc'', get_method msg_body_ci ''irc'' JNull),
                  (''ci_email'', get_method msg_body_ci ''email'' JNull)])
                 (\<lambda>result_data. Inr (Some result_data)))
      | _ \<Rightarrow> Inl TypeError)))"

text \<open>\<^verbatim>\<open>item_type += '_scratch'\<close>: a string is extended, a list takes the seven
  characters as elements, every other value raises.\<close>

definition add_scratch :: "json \<Rightarrow> py_error + json" where
  "add_scratch item_type =
     (case item_type of
        JStr s \<Rightarrow> Inr (JStr (s @ ''_scratch''))
      | JList xs \<Rightarrow> Inr (JList (xs @ map (\<lambda>c. JStr [c]) ''_scratch''))
      | _ \<Rightarrow> Inl TypeError)"

text \<open>Lines 469 and 470: the flag as a boolean.\<close>

definition coerce_scratch :: "json \<Rightarrow> py_error + bool" where
  "coerce_scratch scratch =
     (case scratch of
        JBool b \<Rightarrow> Inr b
      | _ \<Rightarrow> bindE (as_str scratch) (\<lambda>s. Inr (lower s = ''true'')))"

text \<open>Lines 461 to 494.\<close>

definition umb_default :: "json \<Rightarrow> json \<Rightarrow> json \<Rightarrow> py_error + json" where
  "umb_default msg_body system item_type0 =
     bindE (getitem msg_body ''ci'') (\<lambda>msg_body_ci.
     bindE (getitem2 msg_body ''artifact'' ''nvr'') (\<lambda>item.
     bindE (getitem2 msg_body ''artifact'' ''component'') (\<lambda>component.
     bindE (bindE (getitem msg_body ''artifact'') (\<lambda>a. get_method a ''scratch'' (JStr []))) (\<lambda>scratch0.
     bindE (getitem_get msg_body ''artifact'' ''id'') (\<lambda>brew_task_id.
     bindE (coerce_scratch scratch0) (\<lambda>scratch.
     bindE (if scratch then add_scratch item_type0 else Inr item_type0) (\<lambda>item_type.
       plain_dict
         [(''item'', Inr item),
          (''type'', Inr item_type),
          (''brew_task_id'', Inr brew_task_id),
          (''category'', getitem msg_body ''category''),
          (''component'', Inr component),
          (''scratch'', Inr (JBool scratch)),
          (''issuer'', getitem_get msg_body ''artifact'' ''issuer''),
          (''rebuild'', getitem_get msg_body ''run'' ''rebuild''),
          (''log'', getitem2 msg_body ''run'' ''log''),
          (''system_os'', get_method system ''os'' JNull),
          (''system_provider'', get_method system ''provider'' JNull),
          (''ci_name'', get_method msg_body_ci ''name'' JNull),
          (''ci_url'', get_method msg_body_ci ''url'' JNull),
          (''ci_environment'', get_method msg_body_ci ''environment'' JNull),
          (''ci_team'', get_method msg_body_ci ''team'' JNull),
          (''ci_irc'', get_method msg_body_ci ''irc'' JNull),
          (''ci_email'', get_method msg_body_ci ''email'' JNull)])))))))"

text \<open>The choice between the five variants (lines 334 to 494); \<open>None\<close> is the
  early return of the module variant.\<close>

definition umb_result_data :: "env \<Rightarrow> json \<Rightarrow> json \<Rightarrow> json \<Rightarrow> py_error + json option" where
  "umb_result_data env msg_body system item_type =
     (if item_type = JStr ''productmd-compose''
      then bindE (umb_productmd_compose env msg_body system item_type) (\<lambda>d. Inr (Some d))
      else if item_type = JStr ''component-version''
      then bindE (umb_component_version env msg_body item_type) (\<lambda>d. Inr (Some d))
      else if item_type = JStr ''container-image''
      then bindE (umb_container_image env msg_body system item_type) (\<lambda>d. Inr (Some d))
      else if item_type = JStr ''redhat-module''
      then umb_redhat_module msg_body system item_type
      else bindE (umb_default msg_body system item_type) (\<lambda>d. Inr (Some d)))"

text \<open>Lines 327 to 332: \<^verbatim>\<open>system\<close> as one mapping.\<close>

definition normalize_system :: "json \<Rightarrow> json" where
  "normalize_system system =
     (case system of
        JList [] \<Rightarrow> JDict []
      | JList (x # xs) \<Rightarrow> x
      | _ \<Rightarrow> system)"

text \<open>\<^verbatim>\<open>'.'.join(parts)\<close>: every part has to be a string.\<close>

fun join_dot :: "json list \<Rightarrow> py_error + string" where
  "join_dot [] = Inr []"
| "join_dot [JStr s] = Inr s"
| "join_dot (JStr s # rest) = bindE (join_dot rest) (\<lambda>r. Inr (s @ ''.'' @ r))"
| "join_dot (_ # rest) = Inl TypeError"

text \<open>\<^verbatim>\<open>_construct_testcase_dict\<close> (lines 191 to 199); the name is returned
  beside the dictionary.\<close>

definition construct_testcase_dict :: "json \<Rightarrow> py_error + (string \<times> json)" where
  "construct_testcase_dict msg =
     bindE (get_method msg ''namespace'' (JStr ''unknown'')) (\<lambda>namespace.
     bindE (get_method msg ''type'' (JStr ''unknown'')) (\<lambda>test_type.
     bindE (get_method msg ''category'' (JStr ''unknown'')) (\<lambda>category.
     bindE (join_dot [namespace, test_type, category]) (\<lambda>name.
     bindE (getitem2 msg ''ci'' ''url'') (\<lambda>url.
       Inr (name, JDict [(''name'', JStr name), (''ref_url'', url)]))))))"

text \<open>\<^verbatim>\<open>handle_ci_umb\<close> (lines 313 to 512). It returns \<^verbatim>\<open>False\<close> after an
  invalid NSVC and \<^verbatim>\<open>None\<close> otherwise.\<close>

definition handle_ci_umb :: "env \<Rightarrow> string \<Rightarrow> json \<Rightarrow> json io" where
  "handle_ci_umb env uuid4 msg =
     bind_io (lift_io (getitem2 msg ''headers'' ''message-id'')) (\<lambda>msg_id.
     bind_io (lift_io (getitem2 msg ''body'' ''msg'')) (\<lambda>msg_body.
     bind_io (lift_io (getitem2 msg_body ''artifact'' ''type'')) (\<lambda>item_type.
     bind_io (lift_io (getitem2 msg_body ''run'' ''url'')) (\<lambda>test_run_url.
     bind_io (lift_io (test_result_outcome msg)) (\<lambda>outcome.
     bind_io (lift_io (get_method msg_body ''system'' (JDict []))) (\<lambda>system0.
     (let groups = JList [JDict [(''uuid'', JStr uuid4), (''url'', test_run_url)]];
          system = normalize_system system0
      in
     bind_io (lift_io (umb_result_data env msg_body system item_type)) (\<lambda>built.
     (case built of
        None \<Rightarrow> bind_io (emit LogError) (\<lambda>_. return_io (JBool False))
      | Some result_data0 \<Rightarrow>
     bind_io (lift_io (bindE (get_method msg_body ''recipients'' (JList []))
                         (setitem result_data0 ''recipients''))) (\<lambda>result_data1.
     bind_io (lift_io (update_publisher_id result_data1 msg)) (\<lambda>result_data.
     bind_io (lift_io (construct_testcase_dict msg_body)) (\<lambda>(name, testcase).
     bind_io (if is_substring ''unknown'' name then emit LogWarning else return_io ()) (\<lambda>_.
     bind_io (lift_io (bindE (getitem msg ''topic'') as_str)) (\<lambda>topic.
     bind_io (verify_topic_and_testcase_name topic name) (\<lambda>ok.
       if \<not> ok then return_io JNull
       else bind_io (create_result env testcase outcome test_run_url result_data groups JNull)
              (\<lambda>_. return_io JNull))))))))))))))))"

section \<open>The resultsdb-format pipeline\<close>

subsection \<open>The rpmdiff URL pattern\<close>

text \<open>
  \<^verbatim>\<open>re.match(r'^(?P<url_prefix>http.+\/run\/)(?P<run>\d+)(?:\/)?(?P<result>\d+)?$', s)\<close>.
  Every repetition is greedy and is tried from its longest candidate down. The
  handler reads the groups \<^verbatim>\<open>url_prefix\<close> and \<^verbatim>\<open>run\<close> only, so the matcher
  returns these two. \<^verbatim>\<open>$\<close> holds at the end of the string and before a newline
  that ends it; \<^verbatim>\<open>\d\<close> is a digit from 0 to 9.
\<close>

definition is_digit :: "char \<Rightarrow> bool" where
  "is_digit c = (c \<in> set ''0123456789'')"

definition ndigits :: "string \<Rightarrow> nat" where
  "ndigits s = length (takeWhile is_digit s)"

definition at_end :: "string \<Rightarrow> bool" where
  "at_end s = (s = [] \<or> s = [newline])"

text \<open>\<^verbatim>\<open>(?P<result>\d+)?$\<close> with at most \<open>k\<close> digits in the group.\<close>

fun result_end :: "string \<Rightarrow> nat \<Rightarrow> bool" where
  "result_end s 0 = at_end s"
| "result_end s (Suc k) = (at_end (drop (Suc k) s) \<or> result_end s k)"

text \<open>\<^verbatim>\<open>(?:\/)?(?P<result>\d+)?$\<close>: with the slash first, then without it.\<close>

definition slash_result_end :: "string \<Rightarrow> bool" where
  "slash_result_end s =
     (case s of
        [] \<Rightarrow> result_end s (ndigits s)
      | c # r \<Rightarrow>
          if c = CHR ''/'' then result_end r (ndigits r) \<or> result_end s (ndigits s)
          else result_end s (ndigits s))"

text \<open>\<^verbatim>\<open>(?P<run>\d+)\<close> and the rest: the length of the group \<^verbatim>\<open>run\<close>, at most
  \<open>j\<close>.\<close>

fun run_length :: "string \<Rightarrow> nat \<Rightarrow> nat option" where
  "run_length t 0 = None"
| "run_length t (Suc j) =
     (if slash_result_end (drop (Suc j) t) then Some (Suc j) else run_length t j)"

text \<open>The attempt in which \<^verbatim>\<open>.+\<close> ends at index \<open>i\<close>: it holds at least one
  character and no newline, and \<^verbatim>\<open>/run/\<close> follows.\<close>

definition prefix_at :: "string \<Rightarrow> nat \<Rightarrow> (string \<times> string) option" where
  "prefix_at s i =
     (if 5 \<le> i \<and> newline \<notin> set (drop 4 (take i s)) \<and> take 5 (drop i s) = ''/run/''
      then (let t = drop (i + 5) s in
            case run_length t (ndigits t) of
              None \<Rightarrow> None
            | Some j \<Rightarrow> Some (take (i + 5) s, take j t))
      else None)"

fun greedy_prefix :: "string \<Rightarrow> nat \<Rightarrow> (string \<times> string) option" where
  "greedy_prefix s 0 = None"
| "greedy_prefix s (Suc i) =
     (case prefix_at s (Suc i) of
        Some r \<Rightarrow> Some r
      | None \<Rightarrow> greedy_prefix s i)"

definition rpmdiff_match :: "string \<Rightarrow> (string \<times> string) option" where
  "rpmdiff_match s = (if startswith s ''http'' then greedy_prefix s (length s) else None)"

subsection \<open>The handler\<close>

text \<open>Lines 521 to 532: the \<^verbatim>\<open>ref_url\<close> of the group.\<close>

definition rpmdiff_group_ref_url :: "json \<Rightarrow> py_error + json" where
  "rpmdiff_group_ref_url msg_body =
     bindE (getitem msg_body ''ref_url'') (\<lambda>group_ref_url.
     bindE (get_method msg_body ''testcase'' (JDict [])) (\<lambda>tc.
     bindE (get_method tc ''name'' (JStr [])) (\<lambda>name.
     bindE (as_str name) (\<lambda>n.
       if startswith n ''dist.rpmdiff'' then
         (case group_ref_url of
            JStr u \<Rightarrow>
              (case rpmdiff_match u of
                 Some (url_prefix, run) \<Rightarrow> Inr (JStr (url_prefix @ run))
               | None \<Rightarrow> Inl ValueError)
          | _ \<Rightarrow> Inl TypeError)
       else Inr group_ref_url))))"

text \<open>\<^verbatim>\<open>d.items()\<close>.\<close>

definition py_items :: "json \<Rightarrow> py_error + (string \<times> json) list" where
  "py_items v = (case v of JDict kvs \<Rightarrow> Inr kvs | _ \<Rightarrow> Inl AttributeError)"

text \<open>One pass of the loop of the bulk format (lines 542 to 551). The arguments
  of \<^verbatim>\<open>create_result\<close> are evaluated in the order they are written.\<close>

definition bulk_result :: "env \<Rightarrow> json \<Rightarrow> json \<Rightarrow> string \<Rightarrow> json \<Rightarrow> unit io" where
  "bulk_result env msg groups testcase result =
     bind_io (lift_io (get_method result ''data'' (JDict []))) (\<lambda>result_data0.
     bind_io (lift_io (update_publisher_id result_data0 msg)) (\<lambda>result_data.
     bind_io (lift_io (getitem result ''outcome'')) (\<lambda>outcome.
     bind_io (lift_io (get_method result ''ref_url'' (JStr []))) (\<lambda>ref_url.
     bind_io (lift_io (get_method result ''note'' (JStr []))) (\<lambda>note.
       create_result env (JStr testcase) outcome ref_url result_data groups note)))))"

fun bulk_results :: "env \<Rightarrow> json \<Rightarrow> json \<Rightarrow> (string \<times> json) list \<Rightarrow> unit io" where
  "bulk_results env msg groups [] = return_io ()"
| "bulk_results env msg groups ((testcase, result) # rest) =
     bind_io (bulk_result env msg groups testcase result) (\<lambda>_.
       bulk_results env msg groups rest)"

text \<open>\<^verbatim>\<open>handle_resultsdb_format\<close> (lines 515 to 575).\<close>

definition handle_resultsdb_format :: "env \<Rightarrow> string \<Rightarrow> json \<Rightarrow> unit io" where
  "handle_resultsdb_format env uuid4 msg =
     bind_io (lift_io (getitem2 msg ''body'' ''msg'')) (\<lambda>msg_body.
     bind_io (lift_io (rpmdiff_group_ref_url msg_body)) (\<lambda>group_ref_url.
     bind_io (lift_io (get_method msg_body ''results'' JNull)) (\<lambda>results.
       if truthy results then
         (let groups = JList [JDict [(''uuid'', JStr uuid4), (''ref_url'', group_ref_url)]] in
          bind_io (lift_io (bindE (getitem msg_body ''results'') py_items)) (\<lambda>entries.
            bulk_results env msg groups entries))
       else
         bind_io (get_first_group env group_ref_url) (\<lambda>g.
         bind_io (lift_io (get_method g ''uuid'' (JStr uuid4))) (\<lambda>uuid.
         (let groups = JList [JDict [(''uuid'', uuid), (''ref_url'', group_ref_url),
                                     (''description'', group_ref_url)]] in
          bind_io (lift_io (getitem msg_body ''data'')) (\<lambda>result_data0.
          bind_io (lift_io (update_publisher_id result_data0 msg)) (\<lambda>result_data.
          bind_io (lift_io (getitem msg_body ''testcase'')) (\<lambda>testcase.
          bind_io (lift_io (getitem msg_body ''outcome'')) (\<lambda>outcome.
          bind_io (lift_io (getitem msg_body ''ref_url'')) (\<lambda>ref_url.
          bind_io (lift_io (get_method msg_body ''note'' (JStr []))) (\<lambda>note.
            create_result env testcase outcome ref_url result_data groups note))))))))))))"

section \<open>Notions used in the statements\<close>

text \<open>A key of a dictionary.\<close>

definition has_key :: "string \<Rightarrow> json \<Rightarrow> bool" where
  "has_key k d = (case d of JDict kvs \<Rightarrow> k \<in> set (map fst kvs) | _ \<Rightarrow> False)"

text \<open>Every result a run has posted satisfies \<open>P\<close>, whether the run ended with
  an exception or not.\<close>

definition sub_all :: "(submission \<Rightarrow> bool) \<Rightarrow> 'a io \<Rightarrow> bool" where
  "sub_all P m = list_all P (submissions (fst m))"

text \<open>The value a run returns, when it returns one, satisfies \<open>Q\<close>.\<close>

definition ret_all :: "('a \<Rightarrow> bool) \<Rightarrow> 'a io \<Rightarrow> bool" where
  "ret_all Q m = (case snd m of Inr x \<Rightarrow> Q x | Inl e \<Rightarrow> True)"

text \<open>The number of colons of a string.\<close>

definition colons :: "string \<Rightarrow> nat" where
  "colons s = length (filter (\<lambda>c. c = CHR '':'') s)"

text \<open>The structured shape of a topic: the fixed prefix and seven components.\<close>

definition structured_topic :: "string \<Rightarrow> bool" where
  "structured_topic topic =
     (startswith topic topic_prefix \<and> length (split_on CHR ''.'' topic) = 7)"


text \<open>The \<^verbatim>\<open>item\<close> of each posted result of a trace.\<close>

definition submitted_items :: "event list \<Rightarrow> (py_error + json) list" where
  "submitted_items es = map (\<lambda>r. getitem (r_data r) ''item'') (submissions es)"

subsection \<open>Concrete inputs\<close>

text \<open>An API that accepts every result and knows no group; values that are not
  strings are printed as \<^verbatim>\<open>?\<close>, and \<^verbatim>\<open>int\<close> reads the two strings
  \<^verbatim>\<open>0\<close> and \<^verbatim>\<open>1\<close>.\<close>

definition accepting_env :: env where
  "accepting_env =
     \<lparr>post_ok = (\<lambda>_. True),
      groups_response = (\<lambda>_. Inr (JDict [(''data'', JList [])])),
      py_repr = (\<lambda>_. ''?''),
      int_of_str = (\<lambda>s. if s = ''0'' then Some 0 else if s = ''1'' then Some 1 else None)\<rparr>"

text \<open>A message of the unified bus with the given topic, artifact and further keys
  of its body.\<close>

definition umb_msg :: "string \<Rightarrow> (string \<times> json) list \<Rightarrow> (string \<times> json) list \<Rightarrow> json" where
  "umb_msg topic artifact extra =
     JDict [(''topic'', JStr topic),
            (''headers'', JDict [(''message-id'', JStr ''ID:1''), (''JMSXUserID'', JStr ''ci-bot'')]),
            (''body'', JDict [(''msg'', JDict
               ([(''artifact'', JDict artifact),
                 (''run'', JDict [(''url'', JStr ''https://ci/run/1''), (''log'', JStr ''https://ci/run/1/log'')]),
                 (''ci'', JDict [(''name'', JStr ''CI''), (''team'', JStr ''qe''), (''url'', JStr ''https://ci''),
                                 (''email'', JStr ''qe@example.com'')]),
                 (''namespace'', JStr ''baseos''), (''type'', JStr ''tier1''),
                 (''category'', JStr ''functional'')] @ extra))])]"

definition complete_topic :: string where
  "complete_topic = ''/topic/VirtualTopic.eng.ci.baseos.brew-build.test.complete''"

text \<open>A CI-metrics message with the given sub-test records.\<close>

definition ci_metrics_msg :: "json list \<Rightarrow> json" where
  "ci_metrics_msg tests =
     JDict [(''topic'', JStr ''/topic/CI''),
            (''headers'', JDict [(''message-id'', JStr ''ID:2'')]),
            (''body'', JDict [(''msg'', JDict
               [(''team'', JStr ''qe''), (''job_name'', JStr ''nightly''),
                (''jenkins_job_url'', JStr ''https://jenkins/job/nightly''),
                (''jenkins_build_url'', JStr ''https://jenkins/job/nightly/7/''),
                (''component'', JStr ''setup-2.8''),
                (''tests'', JList tests)])])]"

text \<open>Two sub-test records, one without and one with a failure; and a record that
  has no \<^verbatim>\<open>failed\<close> key.\<close>

definition two_tests :: "json list" where
  "two_tests = [JDict [(''executor'', JStr ''beaker''), (''failed'', JInt 0)],
                JDict [(''executor'', JStr ''restraint''), (''failed'', JInt 1)]]"

definition no_failed_key_tests :: "json list" where
  "no_failed_key_tests = [JDict [(''executor'', JStr ''beaker''), (''failed'', JInt 0)],
                          JDict [(''executor'', JStr ''restraint'')]]"

text \<open>Artifacts of three variants: a build (the default variant), a module with the
  given NSVC and neither \<^verbatim>\<open>id\<close> nor \<^verbatim>\<open>issuer\<close>, and a container image without
  a digest.\<close>

definition brew_build_artifact :: "(string \<times> json) list" where
  "brew_build_artifact =
     [(''type'', JStr ''brew-build''), (''nvr'', JStr ''setup-2.8.71-7.el7''),
      (''component'', JStr ''setup''), (''id'', JInt 14546275), (''scratch'', JStr ''True'')]"

definition module_artifact :: "string \<Rightarrow> (string \<times> json) list" where
  "module_artifact nsvc =
     [(''type'', JStr ''redhat-module''), (''nsvc'', JStr nsvc),
      (''name'', JStr ''perl''), (''stream'', JStr ''5.24-beta''),
      (''version'', JStr ''20180515''), (''context'', JStr ''6c81f848'')]"

definition image_artifact_no_digest :: "(string \<times> json) list" where
  "image_artifact_no_digest =
     [(''type'', JStr ''container-image''), (''repository'', JStr ''registry/rhel7/etcd'')]"

text \<open>A message of the resultsdb format with the given body.\<close>

definition resultsdb_msg :: "(string \<times> json) list \<Rightarrow> json" where
  "resultsdb_msg body =
     JDict [(''topic'', JStr ''/topic/VirtualTopic.eng.resultsdb''),
            (''headers'', JDict [(''message-id'', JStr ''ID:3'')]),
            (''body'', JDict [(''msg'', JDict body)])]"

section \<open>Properties of the outcome classifier\<close>

lemma endswith_drop:
  assumes "endswith t p" "k \<le> length p"
  shows "drop (length t - (length p - k)) t = drop k p"
proof -
  from assms have le: "length p \<le> length t" and eq: "drop (length t - length p) t = p"
    by (simp_all add: endswith_def)
  have "drop k (drop (length t - length p) t) = drop (k + (length t - length p)) t"
    by simp
  also have "k + (length t - length p) = length t - (length p - k)"
    using le assms(2) by arith
  finally show ?thesis using eq by simp
qed

lemma queued_not_error: "endswith t ''.queued'' \<Longrightarrow> \<not> endswith t ''.error''"
  using endswith_drop [of t "''.queued''" 1] by (auto simp: endswith_def)

lemma running_not_error: "endswith t ''.running'' \<Longrightarrow> \<not> endswith t ''.error''"
  using endswith_drop [of t "''.running''" 2] by (auto simp: endswith_def)

lemma running_not_queued: "endswith t ''.running'' \<Longrightarrow> \<not> endswith t ''.queued''"
  using endswith_drop [of t "''.running''" 1] by (auto simp: endswith_def)

text \<open>
  Claim C1. For a message with topic \<open>t\<close>: the outcome is FAILED when \<open>t\<close> ends with
  \<^verbatim>\<open>.error\<close>, QUEUED when it ends with \<^verbatim>\<open>.queued\<close>, RUNNING when it ends with
  \<^verbatim>\<open>.running\<close>, whatever the body holds. Otherwise the status \<open>s\<close> of the body is
  read: lower-cased, \<^verbatim>\<open>pass\<close> gives PASSED, \<^verbatim>\<open>fail\<close> and \<^verbatim>\<open>failure\<close> give FAILED,
  every other status is returned as it came; a body without a status ends in
  \<^verbatim>\<open>KeyError\<close>.
\<close>

theorem outcome_classification:
  assumes "getitem message ''topic'' = Inr (JStr t)"
  shows "(endswith t ''.error'' \<longrightarrow> test_result_outcome message = Inr (JStr ''FAILED''))
       \<and> (endswith t ''.queued'' \<longrightarrow> test_result_outcome message = Inr (JStr ''QUEUED''))
       \<and> (endswith t ''.running'' \<longrightarrow> test_result_outcome message = Inr (JStr ''RUNNING''))
       \<and> (\<not> endswith t ''.error'' \<and> \<not> endswith t ''.queued'' \<and> \<not> endswith t ''.running'' \<longrightarrow>
            (getitem2 message ''body'' ''msg'' = Inr m \<and> getitem m ''status'' = Inr (JStr s) \<longrightarrow>
               test_result_outcome message =
                 Inr (if lower s = ''pass'' then JStr ''PASSED''
                      else if lower s = ''fail'' \<or> lower s = ''failure'' then JStr ''FAILED''
                      else JStr s))
          \<and> (getitem2 message ''body'' ''msg'' = Inr (JDict kvs) \<and> map_of kvs ''status'' = None \<longrightarrow>
               test_result_outcome message = Inl KeyError))"
  using assms queued_not_error [of t] running_not_error [of t] running_not_queued [of t]
  by (auto simp: test_result_outcome_def bindE_def as_str_def getitem2_def getitem_def
      broken_mapping_def split: sum.splits json.splits option.splits)

text \<open>The scenarios of the specification, each through the theorem: three topic
  suffixes, four statuses, and a body without a status.\<close>

theorem outcome_classification_witness:
  "test_result_outcome
     (umb_msg ''/topic/VirtualTopic.eng.ci.baseos.brew-build.test.error'' []
        [(''status'', JStr ''PASS'')]) = Inr (JStr ''FAILED'')
   \<and> test_result_outcome
     (umb_msg ''/topic/VirtualTopic.eng.ci.baseos.brew-build.test.queued'' [] [])
       = Inr (JStr ''QUEUED'')
   \<and> test_result_outcome
     (umb_msg ''/topic/VirtualTopic.eng.ci.baseos.brew-build.test.running'' [] [])
       = Inr (JStr ''RUNNING'')
   \<and> test_result_outcome (umb_msg complete_topic [] [(''status'', JStr ''PASS'')])
       = Inr (JStr ''PASSED'')
   \<and> test_result_outcome (umb_msg complete_topic [] [(''status'', JStr ''failure'')])
       = Inr (JStr ''FAILED'')
   \<and> test_result_outcome (umb_msg complete_topic [] [(''status'', JStr ''WAIVED'')])
       = Inr (JStr ''WAIVED'')
   \<and> test_result_outcome (umb_msg complete_topic [] []) = Inl KeyError"
  using
    outcome_classification
      [of "umb_msg ''/topic/VirtualTopic.eng.ci.baseos.brew-build.test.error'' []
             [(''status'', JStr ''PASS'')]"
          "''/topic/VirtualTopic.eng.ci.baseos.brew-build.test.error''"]
    outcome_classification
      [of "umb_msg ''/topic/VirtualTopic.eng.ci.baseos.brew-build.test.queued'' [] []"
          "''/topic/VirtualTopic.eng.ci.baseos.brew-build.test.queued''"]
    outcome_classification
      [of "umb_msg ''/topic/VirtualTopic.eng.ci.baseos.brew-build.test.running'' [] []"
          "''/topic/VirtualTopic.eng.ci.baseos.brew-build.test.running''"]
    outcome_classification
      [of "umb_msg complete_topic [] [(''status'', JStr ''PASS'')]" complete_topic _ "''PASS''"]
    outcome_classification
      [of "umb_msg complete_topic [] [(''status'', JStr ''failure'')]" complete_topic _
          "''failure''"]
    outcome_classification
      [of "umb_msg complete_topic [] [(''status'', JStr ''WAIVED'')]" complete_topic _
          "''WAIVED''"]
    outcome_classification [of "umb_msg complete_topic [] []" complete_topic]
  by (simp add: umb_msg_def complete_topic_def getitem_def getitem2_def bindE_def
      endswith_def lower_def lower_char_def)

section \<open>Properties of the topic and namespace validator\<close>

lemma takeWhile_no_dot:
  "CHR ''.'' \<notin> set n \<Longrightarrow> takeWhile (\<lambda>c. c \<noteq> CHR ''.'') n = n"
  by (induction n) auto

lemma namespace_from_testcase_name_takeWhile:
  "namespace_from_testcase_name n = takeWhile (\<lambda>c. c \<noteq> CHR ''.'') n"
  by (simp add: namespace_from_testcase_name_def split_once_def takeWhile_no_dot)

text \<open>
  Claim C2, as the code has it. For a topic of the structured shape the namespace is
  component 3 of the split at the dots, and validation answers valid exactly when that
  namespace is empty or equals the segment of the test case name before its first dot;
  it answers invalid otherwise. For every other topic validation answers valid. The
  claim as stated leaves out the empty namespace, which the test
  \<^verbatim>\<open>not topic_namespace\<close> sends down the permissive path.
\<close>

theorem topic_namespace_validation:
  "(structured_topic topic \<longrightarrow>
      namespace_from_topic topic = Some (split_on CHR ''.'' topic ! 3) \<and>
      verify_topic_and_testcase_name topic name =
        (if split_on CHR ''.'' topic ! 3 = [] then ([LogWarning], Inr True)
         else if split_on CHR ''.'' topic ! 3 = namespace_from_testcase_name name
         then ([], Inr True) else ([LogWarning], Inr False)))
   \<and> (\<not> structured_topic topic \<longrightarrow>
      namespace_from_topic topic = None \<and>
      verify_topic_and_testcase_name topic name = ([LogWarning], Inr True))"
  by (auto simp: structured_topic_def namespace_from_topic_def verify_topic_and_testcase_name_def
       Let_def bind_io_def emit_def return_io_def)

text \<open>A structured topic with a matching and with a different namespace, and a
  topic of the old scheme.\<close>

theorem topic_namespace_validation_witness:
  "structured_topic complete_topic
   \<and> verify_topic_and_testcase_name complete_topic ''baseos.tier1.functional'' = ([], Inr True)
   \<and> verify_topic_and_testcase_name complete_topic ''other.tier1.functional''
       = ([LogWarning], Inr False)
   \<and> \<not> structured_topic ''/topic/CI.brew-build.test.complete''
   \<and> verify_topic_and_testcase_name ''/topic/CI.brew-build.test.complete''
         ''baseos.tier1.functional'' = ([LogWarning], Inr True)"
  using topic_namespace_validation [of complete_topic "''baseos.tier1.functional''"]
    topic_namespace_validation [of complete_topic "''other.tier1.functional''"]
    topic_namespace_validation [of "''/topic/CI.brew-build.test.complete''"
      "''baseos.tier1.functional''"]
  by (simp add: structured_topic_def complete_topic_def topic_prefix_def startswith_def
      namespace_from_testcase_name_def split_once_def)

text \<open>Claim C2 as stated fails where the namespace component of a structured
  topic is empty: the namespaces differ, and validation still answers valid.\<close>

theorem empty_namespace_counterexample:
  "structured_topic ''/topic/VirtualTopic.eng.ci..brew-build.test.complete''
   \<and> namespace_from_topic ''/topic/VirtualTopic.eng.ci..brew-build.test.complete'' = Some []
   \<and> namespace_from_testcase_name ''baseos.tier1.functional'' = ''baseos''
   \<and> verify_topic_and_testcase_name ''/topic/VirtualTopic.eng.ci..brew-build.test.complete''
        ''baseos.tier1.functional'' = ([LogWarning], Inr True)"
  by (simp add: structured_topic_def namespace_from_topic_def
      verify_topic_and_testcase_name_def Let_def bind_io_def emit_def return_io_def
      startswith_def topic_prefix_def namespace_from_testcase_name_def split_once_def)

section \<open>Traces\<close>

lemma submissions_append [simp]: "submissions (xs @ ys) = submissions xs @ submissions ys"
  by (induction xs rule: submissions.induct) simp_all

lemma bind_io_Inl: "snd m = Inl e \<Longrightarrow> bind_io m f = (fst m, Inl e)"
  by (cases m) (simp add: bind_io_def)

lemma bind_io_Inr: "snd m = Inr x \<Longrightarrow> bind_io m f = (fst m @ fst (f x), snd (f x))"
  by (cases m) (simp add: bind_io_def split: prod.splits)

lemma bind_lift:
  "bind_io (lift_io r) f = (case r of Inl e \<Rightarrow> ([], Inl e) | Inr x \<Rightarrow> f x)"
  by (cases r) (simp_all add: bind_io_def lift_io_def split: prod.splits)

lemma bind_lift_Inr [simp]: "bind_io (lift_io (Inr x)) f = f x"
  by (simp add: bind_lift)

lemma bind_lift_Inl [simp]: "bind_io (lift_io (Inl e)) f = ([], Inl e)"
  by (simp add: bind_lift)

lemma bind_return [simp]: "bind_io (return_io x) f = f x"
  by (simp add: bind_io_def return_io_def split: prod.splits)

lemma bind_emit [simp]: "bind_io (emit ev) f = (ev # fst (f ()), snd (f ()))"
  by (simp add: bind_io_def emit_def split: prod.splits)

lemma bindE_Inr: "bindE m f = Inr y \<Longrightarrow> \<exists>x. m = Inr x \<and> f x = Inr y"
  by (cases m) (simp_all add: bindE_def)

lemma bindE_simps [simp]: "bindE (Inr x) f = f x" "bindE (Inl e) f = Inl e"
  by (simp_all add: bindE_def)

lemma sub_all_lift [simp]: "sub_all P (lift_io r)"
  by (simp add: sub_all_def lift_io_def)

lemma sub_all_return [simp]: "sub_all P (return_io x)"
  by (simp add: sub_all_def return_io_def)

lemma sub_all_emit [simp]:
  "sub_all P (emit LogWarning)" "sub_all P (emit LogError)" "sub_all P (emit (GroupQuery d))"
  by (simp_all add: sub_all_def emit_def)

lemma sub_all_bind:
  assumes "sub_all P m" "\<And>x. snd m = Inr x \<Longrightarrow> sub_all P (f x)"
  shows "sub_all P (bind_io m f)"
proof (cases "snd m")
  case (Inl e)
  then show ?thesis using assms(1) by (simp add: bind_io_Inl sub_all_def)
next
  case (Inr x)
  then show ?thesis using assms(1) assms(2) [OF Inr] by (simp add: bind_io_Inr sub_all_def)
qed

lemma sub_all_bind_lift:
  assumes "\<And>x. r = Inr x \<Longrightarrow> sub_all P (f x)"
  shows "sub_all P (bind_io (lift_io r) f)"
  using assms by (cases r) (simp_all add: sub_all_def)

lemma sub_all_create:
  "P \<lparr>r_testcase = tc, r_outcome = oc, r_ref_url = ru, r_data = d,
      r_groups = py_or g (JList []), r_note = py_or n (JStr [])\<rparr>
   \<Longrightarrow> sub_all P (create_result env tc oc ru d g n)"
  by (simp add: sub_all_def create_result_def Let_def)

lemma sub_all_verify [simp]: "sub_all P (verify_topic_and_testcase_name t n)"
  by (simp add: verify_topic_and_testcase_name_def sub_all_def return_io_def
      split: option.splits)

section \<open>Keys of the dictionaries the handlers build\<close>

lemma has_key_setitem:
  "setitem d k v = Inr d' \<Longrightarrow> has_key k' d \<Longrightarrow> has_key k' d'"
  by (cases d) (force simp: setitem_def has_key_def dom_update)+

lemma has_key_setitem_same: "setitem d k v = Inr d' \<Longrightarrow> has_key k d'"
  by (cases d) (force simp: setitem_def has_key_def dom_update)+

lemma getitem_setitem_other:
  "setitem d k v = Inr d' \<Longrightarrow> k' \<noteq> k \<Longrightarrow> getitem d' k' = getitem d k'"
  by (cases d) (auto simp: setitem_def getitem_def update_conv')

lemma has_key_update_publisher_id:
  "update_publisher_id d msg = Inr d' \<Longrightarrow> has_key k d \<Longrightarrow> has_key k d'"
  by (auto simp: update_publisher_id_def split: if_splits
      dest!: bindE_Inr dest: has_key_setitem)

lemma getitem_update_publisher_id:
  "update_publisher_id d msg = Inr d' \<Longrightarrow> k \<noteq> ''publisher_id'' \<Longrightarrow> getitem d' k = getitem d k"
  by (auto simp: update_publisher_id_def split: if_splits
      dest!: bindE_Inr dest: getitem_setitem_other)

lemma eval_fields_mem:
  "eval_fields fs = Inr kvs \<Longrightarrow> (k, Inr v) \<in> set fs \<Longrightarrow> (k, v) \<in> set kvs"
proof (induction fs arbitrary: kvs)
  case Nil
  then show ?case by simp
next
  case (Cons f fs)
  obtain k' c where f: "f = (k', c)" by (cases f)
  from Cons.prems(1) obtain v' kvs' where c: "c = Inr v'" and r: "eval_fields fs = Inr kvs'"
    and kvs: "kvs = (k', v') # kvs'"
    by (auto simp: f bindE_def split: sum.splits)
  show ?case using Cons.prems(2) Cons.IH [OF r] by (auto simp: f c kvs)
qed

lemma eval_fields_head:
  "eval_fields ((k, Inr v) # fs) = Inr kvs \<Longrightarrow> map_of kvs k = Some v"
  by (auto dest!: bindE_Inr)

lemma not_none_dict_key:
  assumes "not_none_dict fs = Inr d" "(k, Inr v) \<in> set fs" "v \<noteq> JNull"
  shows "has_key k d"
proof -
  from assms(1) obtain kvs where e: "eval_fields fs = Inr kvs"
    and d: "d = JDict (filter (\<lambda>kv. snd kv \<noteq> JNull) kvs)"
    by (auto simp: not_none_dict_def dest!: bindE_Inr)
  from eval_fields_mem [OF e assms(2)] assms(3) show ?thesis
    by (force simp: d has_key_def)
qed

lemma plain_dict_key:
  assumes "plain_dict fs = Inr d" "(k, Inr v) \<in> set fs"
  shows "has_key k d"
proof -
  from assms(1) obtain kvs where e: "eval_fields fs = Inr kvs" and d: "d = JDict kvs"
    by (auto simp: plain_dict_def dest!: bindE_Inr)
  from eval_fields_mem [OF e assms(2)] show ?thesis
    by (force simp: d has_key_def)
qed

section \<open>Properties of the CI-metrics pipeline\<close>

lemma ret_all_bind:
  assumes "\<And>x. snd m = Inr x \<Longrightarrow> ret_all Q (f x)"
  shows "ret_all Q (bind_io m f)"
proof (cases "snd m")
  case (Inl e)
  then show ?thesis by (simp add: bind_io_Inl ret_all_def)
next
  case (Inr x)
  then show ?thesis using assms [OF Inr] by (simp add: bind_io_Inr ret_all_def)
qed

lemma ret_all_bind_lift:
  assumes "\<And>x. r = Inr x \<Longrightarrow> ret_all Q (f x)"
  shows "ret_all Q (bind_io (lift_io r) f)"
  using assms by (cases r) (simp_all add: ret_all_def)

lemma ret_all_return: "Q x \<Longrightarrow> ret_all Q (return_io x)"
  by (simp add: ret_all_def return_io_def)

lemma ret_allD: "ret_all Q m \<Longrightarrow> snd m = Inr x \<Longrightarrow> Q x"
  by (simp add: ret_all_def)

lemma no_submissions: "sub_all (\<lambda>_. False) m \<Longrightarrow> submissions (fst m) = []"
  by (cases "submissions (fst m)") (simp_all add: sub_all_def)

lemma ci_metrics_read_result:
  "ret_all (\<lambda>(vs, tests). \<exists>m g.
      getitem2 msg ''body'' ''msg'' = Inr m \<and> getitem m ''jenkins_build_url'' = Inr g \<and>
      getitem m ''tests'' = Inr tests \<and>
      v_groups vs = JList [JDict [(''uuid'', JStr u), (''ref_url'', g)]])
    (ci_metrics_read u msg)"
  unfolding ci_metrics_read_def Let_def
  by (intro ret_all_bind_lift ret_all_bind ret_all_return) simp

lemma sub_all_if: "sub_all P a \<Longrightarrow> sub_all P b \<Longrightarrow> sub_all P (if c then a else b)"
  by simp

lemma ci_metrics_read_quiet: "submissions (fst (ci_metrics_read u msg)) = []"
proof (rule no_submissions)
  show "sub_all (\<lambda>_. False) (ci_metrics_read u msg)"
    unfolding ci_metrics_read_def Let_def
    by (intro sub_all_bind_lift sub_all_bind sub_all_if sub_all_return sub_all_emit sub_all_lift)
qed

lemma sub_test_data_keys:
  assumes "sub_test_data vs t = Inr t'"
  shows "has_key ''item'' t' \<and> has_key ''type'' t'"
proof -
  from assms obtain t1 t2 t3 t4 t5 t6 where
    s: "setitem t ''item'' (v_component vs) = Inr t1"
       "setitem t1 ''type'' (v_test_type vs) = Inr t2"
       "setitem t2 ''recipients'' (v_recipients vs) = Inr t3"
       "setitem t3 ''CI_tier'' (v_ci_tier vs) = Inr t4"
       "setitem t4 ''job_name'' (v_test_name vs) = Inr t5"
       "setitem t5 ''artifact'' (v_artifact vs) = Inr t6"
       "setitem t6 ''brew_task_id'' (v_brew_task_id vs) = Inr t'"
    unfolding sub_test_data_def by (auto dest!: bindE_Inr)
  have "has_key ''item'' t1" by (rule has_key_setitem_same [OF s(1)])
  then have "has_key ''item'' t2" by (rule has_key_setitem [OF s(2)])
  then have "has_key ''item'' t3" by (rule has_key_setitem [OF s(3)])
  then have "has_key ''item'' t4" by (rule has_key_setitem [OF s(4)])
  then have "has_key ''item'' t5" by (rule has_key_setitem [OF s(5)])
  then have "has_key ''item'' t6" by (rule has_key_setitem [OF s(6)])
  then have i: "has_key ''item'' t'" by (rule has_key_setitem [OF s(7)])
  have "has_key ''type'' t2" by (rule has_key_setitem_same [OF s(2)])
  then have "has_key ''type'' t3" by (rule has_key_setitem [OF s(3)])
  then have "has_key ''type'' t4" by (rule has_key_setitem [OF s(4)])
  then have "has_key ''type'' t5" by (rule has_key_setitem [OF s(5)])
  then have "has_key ''type'' t6" by (rule has_key_setitem [OF s(6)])
  then have "has_key ''type'' t'" by (rule has_key_setitem [OF s(7)])
  with i show ?thesis by simp
qed

lemma sub_test_outcome_values:
  "sub_test_outcome env t = Inr oc \<Longrightarrow> oc = JStr ''PASSED'' \<or> oc = JStr ''FAILED''"
  by (auto simp: sub_test_outcome_def split: if_splits dest!: bindE_Inr)


lemma bind_create_result:
  "bind_io (create_result env tc oc ru d g n) f =
     (let req = \<lparr>r_testcase = tc, r_outcome = oc, r_ref_url = ru, r_data = d,
                 r_groups = py_or g (JList []), r_note = py_or n (JStr [])\<rparr>
      in if post_ok env req then (Submit req # fst (f ()), snd (f ()))
         else ([Submit req], Inl HTTPError))"
  by (simp add: create_result_def Let_def bind_io_def split: prod.splits)

lemma ci_metrics_test_cases:
  "(\<exists>e. ci_metrics_test env msg vs test = ([], Inl e))
   \<or> (\<exists>oc r. sub_test_outcome env test = Inr oc \<and> r_outcome r = oc \<and>
         r_groups r = py_or (v_groups vs) (JList []) \<and>
         has_key ''item'' (r_data r) \<and> has_key ''type'' (r_data r) \<and>
         (ci_metrics_test env msg vs test = ([Submit r], Inr oc) \<or>
          ci_metrics_test env msg vs test = ([Submit r], Inl HTTPError)))"
proof (cases "sub_test_outcome env test")
  case (Inl e)
  then show ?thesis by (simp add: ci_metrics_test_def)
next
  case oc: (Inr oc)
  show ?thesis
  proof (cases "get_method test ''executor'' (JStr ''unknown'')")
    case (Inl e)
    then show ?thesis using oc by (simp add: ci_metrics_test_def)
  next
    case ex: (Inr ex)
    show ?thesis
    proof (cases "sub_test_data vs test")
      case (Inl e)
      then show ?thesis using oc ex by (simp add: ci_metrics_test_def)
    next
      case t1: (Inr t1)
      show ?thesis
      proof (cases "update_publisher_id t1 msg")
        case (Inl e)
        then show ?thesis using oc ex t1 by (simp add: ci_metrics_test_def)
      next
        case t2: (Inr t2)
        let ?r = "\<lparr>r_testcase =
                     JDict [(''name'', JStr (py_str env (v_team vs) @ ''.'' @
                                            py_str env (v_test_name vs) @ ''.'' @
                                            py_str env ex)),
                            (''ref_url'', v_testcase_url vs)],
                   r_outcome = oc, r_ref_url = v_group_tests_ref_url vs, r_data = t2,
                   r_groups = py_or (v_groups vs) (JList []),
                   r_note = py_or JNull (JStr [])\<rparr>"
        have keys: "has_key ''item'' t2 \<and> has_key ''type'' t2"
          using sub_test_data_keys [OF t1] has_key_update_publisher_id [OF t2] by blast
        have run: "ci_metrics_test env msg vs test =
                     ([Submit ?r], if post_ok env ?r then Inr oc else Inl HTTPError)"
          using oc ex t1 t2
          by (simp add: ci_metrics_test_def bind_create_result return_io_def)
        have "sub_test_outcome env test = Inr oc \<and> r_outcome ?r = oc \<and>
              r_groups ?r = py_or (v_groups vs) (JList []) \<and>
              has_key ''item'' (r_data ?r) \<and> has_key ''type'' (r_data ?r) \<and>
              (ci_metrics_test env msg vs test = ([Submit ?r], Inr oc) \<or>
               ci_metrics_test env msg vs test = ([Submit ?r], Inl HTTPError))"
          using oc keys run by simp
        then show ?thesis by blast
      qed
    qed
  qed
qed


lemma bind_io_pair [simp]:
  "bind_io (es, Inr x) f = (es @ fst (f x), snd (f x))"
  "bind_io (es, Inl e) f = (es, Inl e)"
  by (simp_all add: bind_io_def split: prod.splits)

lemma ci_metrics_test_sub_all:
  "sub_all (\<lambda>r. r_groups r = py_or (v_groups vs) (JList []) \<and>
                has_key ''item'' (r_data r) \<and> has_key ''type'' (r_data r))
     (ci_metrics_test env msg vs test)"
  using ci_metrics_test_cases [of env msg vs test] by (auto simp: sub_all_def)

lemma ci_metrics_tests_sub_all:
  assumes "\<And>test. sub_all P (ci_metrics_test env msg vs test)"
  shows "sub_all P (ci_metrics_tests env msg vs ts ov)"
proof (induction ts arbitrary: ov)
  case Nil
  show ?case by simp
next
  case (Cons t ts)
  show ?case by (simp del: bind_emit) (rule sub_all_bind [OF assms Cons.IH])
qed

lemma ci_metrics_tests_trace:
  "length (submissions (fst (ci_metrics_tests env msg vs ts ov))) \<le> length ts \<and>
   map (\<lambda>r. Inr (r_outcome r)) (submissions (fst (ci_metrics_tests env msg vs ts ov)))
     = map (sub_test_outcome env)
         (take (length (submissions (fst (ci_metrics_tests env msg vs ts ov)))) ts)"
proof (induction ts arbitrary: ov)
  case Nil
  show ?case by (simp add: return_io_def)
next
  case (Cons t ts)
  from ci_metrics_test_cases [of env msg vs t]
  consider (quiet) e where "ci_metrics_test env msg vs t = ([], Inl e)"
    | (refused) r oc where "ci_metrics_test env msg vs t = ([Submit r], Inl HTTPError)"
        "sub_test_outcome env t = Inr oc" "r_outcome r = oc"
    | (posted) r oc where "ci_metrics_test env msg vs t = ([Submit r], Inr oc)"
        "sub_test_outcome env t = Inr oc" "r_outcome r = oc"
    by blast
  then show ?case
  proof cases
    case quiet
    then show ?thesis by simp
  next
    case refused
    then show ?thesis by simp
  next
    case posted
    then show ?thesis using Cons.IH by simp
  qed
qed

lemma ci_metrics_tests_done:
  "snd (ci_metrics_tests env msg vs ts ov) = Inr res \<Longrightarrow>
   length (submissions (fst (ci_metrics_tests env msg vs ts ov))) = length ts \<and>
   res = (if JStr ''FAILED'' \<in> set (map r_outcome
                (submissions (fst (ci_metrics_tests env msg vs ts ov))))
          then JStr ''FAILED'' else ov)"
proof (induction ts arbitrary: ov)
  case Nil
  then show ?case by (simp add: return_io_def)
next
  case (Cons t ts)
  from ci_metrics_test_cases [of env msg vs t]
  consider (quiet) e where "ci_metrics_test env msg vs t = ([], Inl e)"
    | (refused) r where "ci_metrics_test env msg vs t = ([Submit r], Inl HTTPError)"
    | (posted) r oc where "ci_metrics_test env msg vs t = ([Submit r], Inr oc)"
        "r_outcome r = oc"
    by blast
  then show ?case
  proof cases
    case quiet
    then show ?thesis using Cons.prems by simp
  next
    case refused
    then show ?thesis using Cons.prems by simp
  next
    case posted
    let ?ov = "if oc = JStr ''FAILED'' then JStr ''FAILED'' else ov"
    from posted Cons.prems have "snd (ci_metrics_tests env msg vs ts ?ov) = Inr res"
      by simp
    from Cons.IH [OF this] posted show ?thesis
      by auto
  qed
qed


lemma sub_all_mono: "sub_all P m \<Longrightarrow> (\<And>r. P r \<Longrightarrow> Q r) \<Longrightarrow> sub_all Q m"
  by (auto simp: sub_all_def list_all_iff)

lemma ci_metrics_overall_cases:
  "(\<exists>e. ci_metrics_overall env msg vs ov = ([], Inl e))
   \<or> (\<exists>r. r_outcome r = ov \<and> r_groups r = py_or (v_groups vs) (JList []) \<and>
         has_key ''item'' (r_data r) \<and> has_key ''type'' (r_data r) \<and>
         (ci_metrics_overall env msg vs ov = ([Submit r], Inr ()) \<or>
          ci_metrics_overall env msg vs ov = ([Submit r], Inl HTTPError)))"
proof (cases "update_publisher_id
                (JDict [(''item'', v_component vs), (''type'', v_test_type vs),
                        (''recipients'', v_recipients vs), (''CI_tier'', v_ci_tier vs),
                        (''job_name'', v_test_name vs), (''artifact'', v_artifact vs),
                        (''brew_task_id'', v_brew_task_id vs)]) msg")
  case (Inl e)
  then show ?thesis by (simp add: ci_metrics_overall_def)
next
  case (Inr rd)
  let ?r = "\<lparr>r_testcase =
               JDict [(''name'', JStr (py_str env (v_team vs) @ ''.'' @ py_str env (v_test_name vs))),
                      (''ref_url'', v_testcase_url vs)],
             r_outcome = ov, r_ref_url = v_group_tests_ref_url vs, r_data = rd,
             r_groups = py_or (v_groups vs) (JList []),
             r_note = py_or JNull (JStr [])\<rparr>"
  have keys: "has_key ''item'' rd \<and> has_key ''type'' rd"
    using has_key_update_publisher_id [OF Inr] by (simp add: has_key_def)
  have run: "ci_metrics_overall env msg vs ov =
               ([Submit ?r], if post_ok env ?r then Inr () else Inl HTTPError)"
    using Inr by (simp add: ci_metrics_overall_def create_result_def Let_def)
  have "r_outcome ?r = ov \<and> r_groups ?r = py_or (v_groups vs) (JList []) \<and>
        has_key ''item'' (r_data ?r) \<and> has_key ''type'' (r_data ?r) \<and>
        (ci_metrics_overall env msg vs ov = ([Submit ?r], Inr ()) \<or>
         ci_metrics_overall env msg vs ov = ([Submit ?r], Inl HTTPError))"
    using keys run by simp
  then show ?thesis by blast
qed

lemma ci_metrics_overall_sub_all:
  "sub_all (\<lambda>r. r_groups r = py_or (v_groups vs) (JList []) \<and>
                has_key ''item'' (r_data r) \<and> has_key ''type'' (r_data r))
     (ci_metrics_overall env msg vs ov)"
  using ci_metrics_overall_cases [of env msg vs ov] by (auto simp: sub_all_def)

lemma handle_ci_metrics_sub_all:
  "sub_all (\<lambda>r. has_key ''item'' (r_data r) \<and> has_key ''type'' (r_data r) \<and>
       (\<forall>m g. getitem2 msg ''body'' ''msg'' = Inr m \<and> getitem m ''jenkins_build_url'' = Inr g
          \<longrightarrow> r_groups r = JList [JDict [(''uuid'', JStr u), (''ref_url'', g)]]))
     (handle_ci_metrics env u msg)"
  unfolding handle_ci_metrics_def
proof (rule sub_all_bind)
  show "sub_all (\<lambda>r. has_key ''item'' (r_data r) \<and> has_key ''type'' (r_data r) \<and>
       (\<forall>m g. getitem2 msg ''body'' ''msg'' = Inr m \<and> getitem m ''jenkins_build_url'' = Inr g
          \<longrightarrow> r_groups r = JList [JDict [(''uuid'', JStr u), (''ref_url'', g)]]))
     (ci_metrics_read u msg)"
    by (simp add: sub_all_def ci_metrics_read_quiet)
next
  fix x assume x: "snd (ci_metrics_read u msg) = Inr x"
  obtain vs tests where xp: "x = (vs, tests)" by (cases x)
  from ret_allD [OF ci_metrics_read_result x] obtain m g
    where m: "getitem2 msg ''body'' ''msg'' = Inr m" "getitem m ''jenkins_build_url'' = Inr g"
      and gr: "v_groups vs = JList [JDict [(''uuid'', JStr u), (''ref_url'', g)]]"
    by (auto simp: xp)
  have weaken: "r_groups r = py_or (v_groups vs) (JList []) \<and>
                has_key ''item'' (r_data r) \<and> has_key ''type'' (r_data r) \<Longrightarrow>
     has_key ''item'' (r_data r) \<and> has_key ''type'' (r_data r) \<and>
       (\<forall>m g. getitem2 msg ''body'' ''msg'' = Inr m \<and> getitem m ''jenkins_build_url'' = Inr g
          \<longrightarrow> r_groups r = JList [JDict [(''uuid'', JStr u), (''ref_url'', g)]])" for r
    using m gr by (auto simp: py_or_def)
  show "sub_all (\<lambda>r. has_key ''item'' (r_data r) \<and> has_key ''type'' (r_data r) \<and>
       (\<forall>m g. getitem2 msg ''body'' ''msg'' = Inr m \<and> getitem m ''jenkins_build_url'' = Inr g
          \<longrightarrow> r_groups r = JList [JDict [(''uuid'', JStr u), (''ref_url'', g)]]))
     (case x of (vs, tests) \<Rightarrow>
        bind_io (lift_io (py_iter tests)) (\<lambda>ts.
        bind_io (ci_metrics_tests env msg vs ts (JStr ''PASSED'')) (\<lambda>overall_outcome.
          ci_metrics_overall env msg vs overall_outcome)))"
    unfolding xp prod.case
    by (intro sub_all_bind_lift sub_all_bind ci_metrics_tests_sub_all
          sub_all_mono [OF ci_metrics_test_sub_all weaken]
          sub_all_mono [OF ci_metrics_overall_sub_all weaken])
qed

lemma handle_ci_metrics_trace:
  assumes m: "getitem2 msg ''body'' ''msg'' = Inr m"
    and ts: "bindE (getitem m ''tests'') py_iter = Inr ts"
  shows "\<exists>loop_subs agg.
     submissions (fst (handle_ci_metrics env u msg)) = loop_subs @ agg \<and>
     length loop_subs \<le> length ts \<and>
     map (\<lambda>r. Inr (r_outcome r)) loop_subs
       = map (sub_test_outcome env) (take (length loop_subs) ts) \<and>
     length agg \<le> 1 \<and>
     (agg \<noteq> [] \<longrightarrow> length loop_subs = length ts \<and>
        r_outcome (hd agg) = (if JStr ''FAILED'' \<in> set (map r_outcome loop_subs)
                              then JStr ''FAILED'' else JStr ''PASSED'')) \<and>
     (snd (handle_ci_metrics env u msg) = Inr () \<longrightarrow> agg \<noteq> [])"
proof (cases "snd (ci_metrics_read u msg)")
  case (Inl e)
  then have "handle_ci_metrics env u msg = (fst (ci_metrics_read u msg), Inl e)"
    by (simp add: handle_ci_metrics_def bind_io_Inl)
  then have "submissions (fst (handle_ci_metrics env u msg)) = [] @ [] \<and>
     snd (handle_ci_metrics env u msg) \<noteq> Inr ()"
    by (simp add: ci_metrics_read_quiet)
  then show ?thesis by (intro exI [of _ "[]"]) simp
next
  case (Inr x)
  obtain vs tests where xp: "x = (vs, tests)" by (cases x)
  from ret_allD [OF ci_metrics_read_result Inr] m have "getitem m ''tests'' = Inr tests"
    by (auto simp: xp)
  with ts have it: "py_iter tests = Inr ts" by simp
  let ?L = "ci_metrics_tests env msg vs ts (JStr ''PASSED'')"
  let ?T = "bind_io ?L (\<lambda>ov. ci_metrics_overall env msg vs ov)"
  have H: "handle_ci_metrics env u msg = (fst (ci_metrics_read u msg) @ fst ?T, snd ?T)"
    using Inr it by (simp add: handle_ci_metrics_def bind_io_Inr xp)
  have subs: "submissions (fst (handle_ci_metrics env u msg)) = submissions (fst ?T)"
    by (simp add: H ci_metrics_read_quiet)
  note tr = ci_metrics_tests_trace [of env msg vs ts "JStr ''PASSED''"]
  show ?thesis
  proof (cases "snd ?L")
    case (Inl e)
    then have T: "?T = (fst ?L, Inl e)" by (simp add: bind_io_Inl)
    have "submissions (fst (handle_ci_metrics env u msg)) = submissions (fst ?L) @ [] \<and>
      snd (handle_ci_metrics env u msg) \<noteq> Inr ()"
      by (simp add: T H ci_metrics_read_quiet)
    then show ?thesis using tr by (intro exI [of _ "submissions (fst ?L)"] exI [of _ "[]"]) simp
  next
    case ov: (Inr ov)
    then have T: "?T = (fst ?L @ fst (ci_metrics_overall env msg vs ov),
                        snd (ci_metrics_overall env msg vs ov))"
      by (simp add: bind_io_Inr)
    note dn = ci_metrics_tests_done [OF ov]
    from ci_metrics_overall_cases [of env msg vs ov]
    consider (quiet) e where "ci_metrics_overall env msg vs ov = ([], Inl e)"
      | (posted) r where "r_outcome r = ov"
          "ci_metrics_overall env msg vs ov = ([Submit r], Inr ()) \<or>
           ci_metrics_overall env msg vs ov = ([Submit r], Inl HTTPError)"
      by blast
    then show ?thesis
    proof cases
      case quiet
      have "submissions (fst (handle_ci_metrics env u msg)) = submissions (fst ?L) @ [] \<and>
        snd (handle_ci_metrics env u msg) \<noteq> Inr ()"
        by (simp add: T H quiet ci_metrics_read_quiet)
      then show ?thesis using tr
        by (intro exI [of _ "submissions (fst ?L)"] exI [of _ "[]"]) simp
    next
      case posted
      have "submissions (fst (handle_ci_metrics env u msg)) = submissions (fst ?L) @ [r]"
        using posted(2) by (auto simp: T H ci_metrics_read_quiet)
      then show ?thesis using tr dn posted(1)
        by (intro exI [of _ "submissions (fst ?L)"] exI [of _ "[r]"]) simp
    qed
  qed
qed


lemmas ci_metrics_eval =
  handle_ci_metrics_def ci_metrics_read_def ci_metrics_msg_def
  getitem2_def getitem_def get_method_def py_contains_def as_str_def Let_def rstrip_def
  split_json_def py_iter_def ci_metrics_test_def sub_test_outcome_def py_int_def
  sub_test_data_def setitem_def update_publisher_id_def bind_create_result py_or_def
  py_str_def accepting_env_def ci_metrics_overall_def return_io_def emit_def
  create_result_def

text \<open>
  Claim C8. For a CI-metrics message whose \<^verbatim>\<open>tests\<close> hold \<open>n\<close> sub-test records:
  every result posted carries the one group made of the fresh UUID and the build URL,
  and never more than \<open>n + 1\<close> results are posted. When the handler returns, exactly
  \<open>n + 1\<close> were posted: the first \<open>n\<close> carry the outcomes of the sub-tests in order,
  and the last, the aggregate, is FAILED if one of them is FAILED and PASSED
  otherwise.
\<close>

theorem ci_metrics_submissions:
  assumes "getitem2 msg ''body'' ''msg'' = Inr m"
    and "getitem m ''jenkins_build_url'' = Inr g"
    and "bindE (getitem m ''tests'') py_iter = Inr ts"
  shows "list_all (\<lambda>r. r_groups r = JList [JDict [(''uuid'', JStr uuid4), (''ref_url'', g)]])
           (submissions (fst (handle_ci_metrics env uuid4 msg)))
     \<and> length (submissions (fst (handle_ci_metrics env uuid4 msg))) \<le> length ts + 1
     \<and> (snd (handle_ci_metrics env uuid4 msg) = Inr () \<longrightarrow>
          length (submissions (fst (handle_ci_metrics env uuid4 msg))) = length ts + 1 \<and>
          map (\<lambda>r. Inr (r_outcome r)) (butlast (submissions (fst (handle_ci_metrics env uuid4 msg))))
            = map (sub_test_outcome env) ts \<and>
          r_outcome (last (submissions (fst (handle_ci_metrics env uuid4 msg))))
            = (if JStr ''FAILED'' \<in> set (map r_outcome
                    (butlast (submissions (fst (handle_ci_metrics env uuid4 msg)))))
               then JStr ''FAILED'' else JStr ''PASSED''))"
proof -
  let ?subs = "submissions (fst (handle_ci_metrics env uuid4 msg))"
  have "list_all (\<lambda>r. r_groups r = JList [JDict [(''uuid'', JStr uuid4), (''ref_url'', g)]]) ?subs"
    using handle_ci_metrics_sub_all [of msg uuid4 env] assms(1,2)
    by (auto simp: sub_all_def list_all_iff)
  moreover
  from handle_ci_metrics_trace [OF assms(1) assms(3), of env uuid4]
  obtain loop_subs agg where tr: "?subs = loop_subs @ agg" "length loop_subs \<le> length ts"
    "map (\<lambda>r. Inr (r_outcome r)) loop_subs
       = map (sub_test_outcome env) (take (length loop_subs) ts)"
    "length agg \<le> 1"
    "agg \<noteq> [] \<longrightarrow> length loop_subs = length ts \<and>
        r_outcome (hd agg) = (if JStr ''FAILED'' \<in> set (map r_outcome loop_subs)
                              then JStr ''FAILED'' else JStr ''PASSED'')"
    "snd (handle_ci_metrics env uuid4 msg) = Inr () \<longrightarrow> agg \<noteq> []"
    by blast
  have "length ?subs \<le> length ts + 1" using tr(1,2,4) by simp
  moreover
  have "length ?subs = length ts + 1 \<and>
        map (\<lambda>r. Inr (r_outcome r)) (butlast ?subs) = map (sub_test_outcome env) ts \<and>
        r_outcome (last ?subs)
          = (if JStr ''FAILED'' \<in> set (map r_outcome (butlast ?subs))
             then JStr ''FAILED'' else JStr ''PASSED'')"
    if "snd (handle_ci_metrics env uuid4 msg) = Inr ()"
  proof -
    from that tr(6) have ne: "agg \<noteq> []" by simp
    with tr(4) obtain r where agg: "agg = [r]" by (cases agg) auto
    from ne tr(5) have full: "length loop_subs = length ts"
      and oc: "r_outcome (hd agg) = (if JStr ''FAILED'' \<in> set (map r_outcome loop_subs)
                              then JStr ''FAILED'' else JStr ''PASSED'')" by simp_all
    show ?thesis using tr(1,3) full oc by (simp add: agg)
  qed
  ultimately show ?thesis by blast
qed


text \<open>The scenario of the specification: one sub-test without and one with a
  failure give three results, the last one FAILED.\<close>

theorem ci_metrics_submissions_witness:
  "snd (handle_ci_metrics accepting_env ''u1'' (ci_metrics_msg two_tests)) = Inr ()
   \<and> length (submissions (fst (handle_ci_metrics accepting_env ''u1'' (ci_metrics_msg two_tests)))) = 3
   \<and> map r_outcome (submissions (fst (handle_ci_metrics accepting_env ''u1'' (ci_metrics_msg two_tests))))
       = [JStr ''PASSED'', JStr ''FAILED'', JStr ''FAILED'']
   \<and> map r_groups (submissions (fst (handle_ci_metrics accepting_env ''u1'' (ci_metrics_msg two_tests))))
       = replicate 3 (JList [JDict [(''uuid'', JStr ''u1''),
                                     (''ref_url'', JStr ''https://jenkins/job/nightly/7/'')]])"
proof -
  have run: "snd (handle_ci_metrics accepting_env ''u1'' (ci_metrics_msg two_tests)) = Inr ()"
    by (simp add: ci_metrics_eval two_tests_def)
  have outcomes: "map r_outcome
      (submissions (fst (handle_ci_metrics accepting_env ''u1'' (ci_metrics_msg two_tests))))
       = [JStr ''PASSED'', JStr ''FAILED'', JStr ''FAILED'']"
    by (simp add: ci_metrics_eval two_tests_def)
  have grps: "map r_groups
      (submissions (fst (handle_ci_metrics accepting_env ''u1'' (ci_metrics_msg two_tests))))
       = replicate 3 (JList [JDict [(''uuid'', JStr ''u1''),
                                     (''ref_url'', JStr ''https://jenkins/job/nightly/7/'')]])"
    by (simp add: ci_metrics_eval two_tests_def eval_nat_numeral)
  from ci_metrics_submissions
    [where msg = "ci_metrics_msg two_tests"
       and m = "JDict [(''team'', JStr ''qe''), (''job_name'', JStr ''nightly''),
                (''jenkins_job_url'', JStr ''https://jenkins/job/nightly''),
                (''jenkins_build_url'', JStr ''https://jenkins/job/nightly/7/''),
                (''component'', JStr ''setup-2.8''),
                (''tests'', JList two_tests)]"
       and g = "JStr ''https://jenkins/job/nightly/7/''" and ts = two_tests
       and env = accepting_env and ?uuid4.0 = "''u1''"]
  have "length (submissions (fst (handle_ci_metrics accepting_env ''u1''
          (ci_metrics_msg two_tests)))) = length two_tests + 1"
    using run by (simp add: ci_metrics_msg_def getitem2_def getitem_def py_iter_def)
  then show ?thesis using run outcomes grps by (simp add: two_tests_def)
qed

text \<open>
  Claim C10. A sub-test record without the key \<^verbatim>\<open>failed\<close> is classified FAILED,
  as a record with a count other than zero is; the result posted for it, when the
  handler gets that far, is FAILED, and when the handler returns the aggregate is
  FAILED.
\<close>

theorem missing_failed_key_fails:
  assumes "getitem2 msg ''body'' ''msg'' = Inr m"
    and "bindE (getitem m ''tests'') py_iter = Inr ts"
    and "i < length ts" and "ts ! i = JDict d" and "''failed'' \<notin> set (map fst d)"
  shows "sub_test_outcome env (ts ! i) = Inr (JStr ''FAILED'')
     \<and> (n \<noteq> 0 \<longrightarrow> sub_test_outcome env (JDict [(''failed'', JInt n)]) = Inr (JStr ''FAILED''))
     \<and> (i < length (submissions (fst (handle_ci_metrics env uuid4 msg))) \<longrightarrow>
          r_outcome (submissions (fst (handle_ci_metrics env uuid4 msg)) ! i) = JStr ''FAILED'')
     \<and> (snd (handle_ci_metrics env uuid4 msg) = Inr () \<longrightarrow>
          r_outcome (last (submissions (fst (handle_ci_metrics env uuid4 msg)))) = JStr ''FAILED'')"
proof -
  let ?subs = "submissions (fst (handle_ci_metrics env uuid4 msg))"
  have one: "sub_test_outcome env (ts ! i) = Inr (JStr ''FAILED'')"
    using assms(4,5) by (simp add: sub_test_outcome_def py_contains_def)
  have nz: "n \<noteq> 0 \<longrightarrow> sub_test_outcome env (JDict [(''failed'', JInt n)]) = Inr (JStr ''FAILED'')"
    by (simp add: sub_test_outcome_def py_contains_def getitem_def py_int_def)
  from handle_ci_metrics_trace [OF assms(1) assms(2), of env uuid4]
  obtain loop_subs agg where tr: "?subs = loop_subs @ agg" "length loop_subs \<le> length ts"
    "map (\<lambda>r. Inr (r_outcome r)) loop_subs
       = map (sub_test_outcome env) (take (length loop_subs) ts)"
    "length agg \<le> 1"
    "agg \<noteq> [] \<longrightarrow> length loop_subs = length ts \<and>
        r_outcome (hd agg) = (if JStr ''FAILED'' \<in> set (map r_outcome loop_subs)
                              then JStr ''FAILED'' else JStr ''PASSED'')"
    "snd (handle_ci_metrics env uuid4 msg) = Inr () \<longrightarrow> agg \<noteq> []"
    by blast
  have at: "r_outcome (loop_subs ! i) = JStr ''FAILED''" if "i < length loop_subs"
  proof -
    have "map (\<lambda>r. Inr (r_outcome r) :: py_error + json) loop_subs ! i
            = map (sub_test_outcome env) (take (length loop_subs) ts) ! i"
      by (simp only: tr(3))
    then show ?thesis using that tr(2) one by simp
  qed
  have posted: "r_outcome (?subs ! i) = JStr ''FAILED''" if "i < length ?subs"
  proof (cases "i < length loop_subs")
    case True
    then show ?thesis using at by (simp add: tr(1) nth_append)
  next
    case False
    with that tr(1) have "agg \<noteq> []" by auto
    with tr(5) assms(3) False show ?thesis by simp
  qed
  have agg: "r_outcome (last ?subs) = JStr ''FAILED''"
    if "snd (handle_ci_metrics env uuid4 msg) = Inr ()"
  proof -
    from that tr(6) have ne: "agg \<noteq> []" by simp
    with tr(4) obtain r where r: "agg = [r]" by (cases agg) auto
    from ne tr(5) assms(3) have il: "i < length loop_subs" by simp
    then have "r_outcome (loop_subs ! i) \<in> set (map r_outcome loop_subs)" by simp
    with at [OF il] have "JStr ''FAILED'' \<in> set (map r_outcome loop_subs)" by simp
    with ne tr(5) show ?thesis by (simp add: tr(1) r)
  qed
  from one nz posted agg show ?thesis by blast
qed

text \<open>A message whose second record has no \<^verbatim>\<open>failed\<close> key: its result and
  the aggregate are FAILED.\<close>

theorem missing_failed_key_fails_witness:
  "snd (handle_ci_metrics accepting_env ''u1'' (ci_metrics_msg no_failed_key_tests)) = Inr ()
   \<and> sub_test_outcome accepting_env (no_failed_key_tests ! 1) = Inr (JStr ''FAILED'')
   \<and> sub_test_outcome accepting_env (JDict [(''failed'', JInt 2)]) = Inr (JStr ''FAILED'')
   \<and> r_outcome (submissions (fst (handle_ci_metrics accepting_env ''u1''
         (ci_metrics_msg no_failed_key_tests))) ! 1) = JStr ''FAILED''
   \<and> r_outcome (last (submissions (fst (handle_ci_metrics accepting_env ''u1''
         (ci_metrics_msg no_failed_key_tests))))) = JStr ''FAILED''"
proof -
  have run: "snd (handle_ci_metrics accepting_env ''u1'' (ci_metrics_msg no_failed_key_tests))
               = Inr ()"
    by (simp add: ci_metrics_eval no_failed_key_tests_def)
  have len: "length (submissions (fst (handle_ci_metrics accepting_env ''u1''
               (ci_metrics_msg no_failed_key_tests)))) = 3"
    by (simp add: ci_metrics_eval no_failed_key_tests_def)
  from missing_failed_key_fails
    [where msg = "ci_metrics_msg no_failed_key_tests"
       and m = "JDict [(''team'', JStr ''qe''), (''job_name'', JStr ''nightly''),
                (''jenkins_job_url'', JStr ''https://jenkins/job/nightly''),
                (''jenkins_build_url'', JStr ''https://jenkins/job/nightly/7/''),
                (''component'', JStr ''setup-2.8''),
                (''tests'', JList no_failed_key_tests)]"
       and ts = no_failed_key_tests and i = 1 and d = "[(''executor'', JStr ''restraint'')]"
       and n = 2 and env = accepting_env and ?uuid4.0 = "''u1''"]
  show ?thesis using run len
    by (simp add: ci_metrics_msg_def getitem2_def getitem_def py_iter_def
        no_failed_key_tests_def)
qed

section \<open>Properties of the NSVC pattern\<close>

lemma colons_append [simp]: "colons (a @ b) = colons a + colons b"
  by (simp add: colons_def)

lemma colons_Cons [simp]: "colons (c # s) = (if c = CHR '':'' then 1 else 0) + colons s"
  by (simp add: colons_def)

lemma colons_Nil [simp]: "colons [] = 0"
  by (simp add: colons_def)

lemma colons_free: "CHR '':'' \<notin> set s \<Longrightarrow> colons s = 0"
  by (induction s) auto

lemma colons_split:
  assumes "i < length s" "s ! i = CHR '':''"
  shows "colons s = colons (take i s) + 1 + colons (drop (Suc i) s)"
proof -
  have "s = take i s @ s ! i # drop (Suc i) s"
    using assms(1) by (simp add: id_take_nth_drop)
  then have "colons s = colons (take i s @ s ! i # drop (Suc i) s)" by simp
  then show ?thesis using assms(2) by simp
qed

text \<open>A successful greedy search succeeded at some index, and it returns the
  attempt at the last index that succeeds.\<close>

lemma greedy_colon_Some:
  "greedy_colon k s i = Some gs \<Longrightarrow> \<exists>j\<le>i. colon_at k s j = Some gs"
proof (induction i)
  case 0
  then show ?case by auto
next
  case (Suc i)
  show ?case
  proof (cases "colon_at k s (Suc i)")
    case None
    with Suc.prems have "greedy_colon k s i = Some gs" by simp
    with Suc.IH obtain j where "j \<le> i" "colon_at k s j = Some gs" by blast
    then show ?thesis using le_SucI by blast
  next
    case (Some r)
    with Suc.prems have "r = gs" by simp
    with Some show ?thesis by blast
  qed
qed

lemma greedy_colon_last:
  assumes "colon_at k s j = Some r" "j \<le> i"
    and "\<And>j'. j < j' \<Longrightarrow> j' \<le> i \<Longrightarrow> colon_at k s j' = None"
  shows "greedy_colon k s i = Some r"
  using assms
proof (induction i)
  case 0
  then show ?case by simp
next
  case (Suc i)
  show ?case
  proof (cases "j = Suc i")
    case True
    with Suc.prems(1) show ?thesis by simp
  next
    case False
    with Suc.prems(2) have "j \<le> i" "j < Suc i" by simp_all
    then have "colon_at k s (Suc i) = None" using Suc.prems(3) by simp
    moreover have "greedy_colon k s i = Some r"
      using Suc.IH [OF Suc.prems(1) \<open>j \<le> i\<close>] Suc.prems(3) by simp
    ultimately show ?thesis by simp
  qed
qed

text \<open>A match with \<open>n\<close> separators needs \<open>n\<close> colons.\<close>

lemma nsvc_groups_colons: "nsvc_groups n s = Some gs \<Longrightarrow> n \<le> colons s"
proof (induction n arbitrary: s gs)
  case 0
  then show ?case by simp
next
  case (Suc n)
  from Suc.prems obtain j where "colon_at (nsvc_groups n) s j = Some gs"
    using greedy_colon_Some by fastforce
  then obtain gs' where j: "j < length s" "s ! j = CHR '':''"
    and rest: "nsvc_groups n (drop (Suc j) s) = Some gs'"
    by (auto simp: colon_at_def split: if_splits)
  from Suc.IH [OF rest] colons_split [OF j] show ?case by simp
qed

lemma nsvc_groups_step:
  assumes a: "CHR '':'' \<notin> set a" "newline \<notin> set a"
    and rest: "nsvc_groups n rest = Some gs" "colons rest = n"
  shows "nsvc_groups (Suc n) (a @ CHR '':'' # rest) = Some (a # gs)"
proof -
  let ?s = "a @ CHR '':'' # rest"
  have here: "colon_at (nsvc_groups n) ?s (length a) = Some (a # gs)"
    using a(2) rest(1) by (simp add: colon_at_def)
  have later: "colon_at (nsvc_groups n) ?s j' = None" if "length a < j'" "j' \<le> length ?s" for j'
  proof (rule ccontr)
    assume "colon_at (nsvc_groups n) ?s j' \<noteq> None"
    then obtain gs' where j: "j' < length ?s" "?s ! j' = CHR '':''"
      and m: "nsvc_groups n (drop (Suc j') ?s) = Some gs'"
      by (auto simp: colon_at_def split: if_splits)
    from that(1) obtain d where d: "j' = length a + Suc d"
      using less_iff_Suc_add by auto
    have dr: "drop (Suc j') ?s = drop (Suc d) rest" by (simp add: d)
    have at: "rest ! d = CHR '':''" "d < length rest" using j by (simp_all add: d nth_append)
    from nsvc_groups_colons [OF m [unfolded dr]] colons_split [OF at(2) at(1)] rest(2)
    show False by simp
  qed
  have "greedy_colon (nsvc_groups n) ?s (length ?s) = Some (a # gs)"
  proof (rule greedy_colon_last [OF here])
    show "length a \<le> length ?s" by simp
  next
    fix j' assume "length a < j'" "j' \<le> length ?s"
    then show "colon_at (nsvc_groups n) ?s j' = None" by (rule later)
  qed
  then show ?thesis by (simp only: nsvc_groups.simps)
qed

lemma nsvc_groups_last: "newline \<notin> set c \<Longrightarrow> nsvc_groups 0 c = Some [c]"
  by (induction c) auto

lemma nsvc_match_parts:
  assumes "CHR '':'' \<notin> set name" "CHR '':'' \<notin> set stream" "CHR '':'' \<notin> set version"
    "CHR '':'' \<notin> set context"
    and "newline \<notin> set name" "newline \<notin> set stream" "newline \<notin> set version"
    "newline \<notin> set context"
  shows "nsvc_match (name @ '':'' @ stream @ '':'' @ version @ '':'' @ context)
         = Some [name, stream, version, context]"
proof -
  have c0: "colons context = 0"
    by (rule colons_free [OF assms(4)])
  have 1: "nsvc_groups (Suc 0) (version @ CHR '':'' # context) = Some [version, context]"
    by (rule nsvc_groups_step [OF assms(3) assms(7) nsvc_groups_last [OF assms(8)] c0])
  have c1: "colons (version @ CHR '':'' # context) = Suc 0"
    using colons_free assms by simp
  have 2: "nsvc_groups (Suc (Suc 0)) (stream @ CHR '':'' # version @ CHR '':'' # context)
           = Some [stream, version, context]"
    by (rule nsvc_groups_step [OF assms(2) assms(6) 1 c1])
  have c2: "colons (stream @ CHR '':'' # version @ CHR '':'' # context) = Suc (Suc 0)"
    using colons_free assms by simp
  have "nsvc_groups (Suc (Suc (Suc 0)))
          (name @ CHR '':'' # stream @ CHR '':'' # version @ CHR '':'' # context)
        = Some [name, stream, version, context]"
    by (rule nsvc_groups_step [OF assms(1) assms(5) 2 c2])
  then show ?thesis
    by (simp add: nsvc_match_def numeral_3_eq_3 del: nsvc_groups.simps)
qed

lemma nsvc_match_few_colons: "colons s < 3 \<Longrightarrow> nsvc_match s = None"
  using nsvc_groups_colons [of 3 s]
  by (cases "nsvc_match s") (auto simp: nsvc_match_def simp del: nsvc_groups.simps)

section \<open>Properties of the unified-bus pipeline\<close>

text \<open>Whatever \<^verbatim>\<open>handle_ci_umb\<close> posts is the dictionary its variant built, with
  the recipients and the publisher written into it.\<close>

lemma umb_submitted_data:
  assumes "\<And>mb it sys0 rd0 rd1 rd.
     getitem2 msg ''body'' ''msg'' = Inr mb \<Longrightarrow>
     getitem2 mb ''artifact'' ''type'' = Inr it \<Longrightarrow>
     get_method mb ''system'' (JDict []) = Inr sys0 \<Longrightarrow>
     umb_result_data env mb (normalize_system sys0) it = Inr (Some rd0) \<Longrightarrow>
     bindE (get_method mb ''recipients'' (JList [])) (setitem rd0 ''recipients'') = Inr rd1 \<Longrightarrow>
     update_publisher_id rd1 msg = Inr rd \<Longrightarrow> Q rd"
  shows "sub_all (\<lambda>r. Q (r_data r)) (handle_ci_umb env u msg)"
  unfolding handle_ci_umb_def Let_def
  apply (rule sub_all_bind_lift)+
  subgoal for msg_id mb it url oc sys0 built
    apply (cases built)
     apply (simp add: sub_all_def return_io_def)
    apply simp
    apply (rule sub_all_bind_lift)+
    subgoal for rd0 rd1 rd nt
      apply (cases nt)
      apply (simp only: prod.case)
      apply (rule sub_all_bind)
       apply simp
      apply (rule sub_all_bind_lift)
      apply (rule sub_all_bind)
       apply simp
      apply (auto intro!: sub_all_bind sub_all_create assms)
      done
    done
  done

lemma productmd_keys:
  assumes "umb_productmd_compose env mb sys it = Inr d" "it \<noteq> JNull"
  shows "has_key ''item'' d \<and> has_key ''type'' d"
proof -
  from assms(1) obtain fs item where d: "not_none_dict fs = Inr d"
    and "(''item'', Inr (JStr item)) \<in> set fs" "(''type'', Inr it) \<in> set fs"
    unfolding umb_productmd_compose_def Let_def
    by (fastforce dest!: bindE_Inr)
  then show ?thesis using assms(2) not_none_dict_key by blast
qed

lemma component_version_keys:
  assumes "umb_component_version env mb it = Inr d" "it \<noteq> JNull"
  shows "has_key ''item'' d \<and> has_key ''type'' d"
proof -
  from assms(1) obtain fs item where d: "not_none_dict fs = Inr d"
    and "(''item'', Inr (JStr item)) \<in> set fs" "(''type'', Inr it) \<in> set fs"
    unfolding umb_component_version_def Let_def
    by (fastforce dest!: bindE_Inr)
  then show ?thesis using assms(2) not_none_dict_key by blast
qed

lemma container_image_keys:
  assumes "umb_container_image env mb sys it = Inr d" "it \<noteq> JNull"
  shows "has_key ''item'' d \<and> has_key ''type'' d"
proof -
  from assms(1) obtain fs item where d: "not_none_dict fs = Inr d"
    and "(''item'', Inr (JStr item)) \<in> set fs" "(''type'', Inr it) \<in> set fs"
    unfolding umb_container_image_def Let_def
    by (fastforce dest!: bindE_Inr)
  then show ?thesis using assms(2) not_none_dict_key by blast
qed

lemma redhat_module_keys:
  assumes "umb_redhat_module mb sys it = Inr (Some d)"
  shows "has_key ''item'' d \<and> has_key ''type'' d"
proof -
  from assms(1) obtain fs item where d: "plain_dict fs = Inr d"
    and "(''item'', Inr (JStr item)) \<in> set fs" "(''type'', Inr it) \<in> set fs"
    unfolding umb_redhat_module_def
    by (fastforce dest!: bindE_Inr split: json.splits option.splits)
  then show ?thesis using plain_dict_key by blast
qed

lemma default_keys:
  assumes "umb_default mb sys it = Inr d"
  shows "has_key ''item'' d \<and> has_key ''type'' d"
proof -
  from assms(1) obtain fs item it' where d: "plain_dict fs = Inr d"
    and "(''item'', Inr item) \<in> set fs" "(''type'', Inr it') \<in> set fs"
    unfolding umb_default_def
    by (fastforce dest!: bindE_Inr)
  then show ?thesis using plain_dict_key by blast
qed

lemma umb_result_data_keys:
  assumes "umb_result_data env mb sys it = Inr (Some d)"
  shows "has_key ''item'' d \<and> has_key ''type'' d"
  using assms productmd_keys [of env mb sys it d] component_version_keys [of env mb it d]
    container_image_keys [of env mb sys it d] redhat_module_keys [of mb sys it d]
    default_keys [of mb sys it d]
  by (auto simp: umb_result_data_def split: if_splits dest!: bindE_Inr)

lemmas umb_eval = handle_ci_umb_def umb_msg_def complete_topic_def getitem2_def getitem_get_def
  getitem_def get_method_def test_result_outcome_def as_str_def endswith_def lower_def
  lower_char_def broken_mapping_def normalize_system_def umb_result_data_def
  umb_productmd_compose_def umb_component_version_def umb_container_image_def
  umb_redhat_module_def umb_default_def plain_dict_def not_none_dict_def coerce_scratch_def
  add_scratch_def setitem_def update_publisher_id_def construct_testcase_dict_def
  verify_topic_and_testcase_name_def namespace_from_topic_def namespace_from_testcase_name_def
  split_once_def startswith_def topic_prefix_def create_result_def py_or_def py_str_def
  accepting_env_def return_io_def emit_def Let_def nsvc_item_def nsvc_match_def
  colon_at_def newline_def replace_char_def eval_nat_numeral

lemma handle_ci_umb_keys:
  "sub_all (\<lambda>r. has_key ''item'' (r_data r) \<and> has_key ''type'' (r_data r))
     (handle_ci_umb env u msg)"
proof (rule umb_submitted_data)
  fix mb it sys0 rd0 rd1 rd
  assume b: "umb_result_data env mb (normalize_system sys0) it = Inr (Some rd0)"
    and r: "bindE (get_method mb ''recipients'' (JList [])) (setitem rd0 ''recipients'') = Inr rd1"
    and p: "update_publisher_id rd1 msg = Inr rd"
  from r obtain v where s: "setitem rd0 ''recipients'' v = Inr rd1"
    by (auto dest!: bindE_Inr)
  from umb_result_data_keys [OF b] has_key_setitem [OF s] has_key_update_publisher_id [OF p]
  show "has_key ''item'' rd \<and> has_key ''type'' rd" by blast
qed

lemma plain_dict_head: "plain_dict ((k, Inr v) # fs) = Inr d \<Longrightarrow> getitem d k = Inr v"
  by (auto simp: plain_dict_def getitem_def dest!: bindE_Inr)

lemma redhat_module_item:
  assumes "umb_redhat_module mb sys it = Inr (Some d)"
  shows "\<exists>s nsvc. getitem2 mb ''artifact'' ''nsvc'' = Inr (JStr s) \<and> nsvc_item s = Some nsvc \<and>
           getitem d ''item'' = Inr (JStr nsvc)"
proof -
  from assms obtain ci v where v: "getitem2 mb ''artifact'' ''nsvc'' = Inr v"
    and rest: "(case v of
        JStr s \<Rightarrow>
          (case nsvc_item s of
             None \<Rightarrow> Inr None
           | Some nsvc \<Rightarrow>
               bindE (plain_dict
                 [(''item'', Inr (JStr nsvc)),
                  (''type'', Inr it),
                  (''mbs_id'', getitem_get mb ''artifact'' ''id''),
                  (''category'', getitem mb ''category''),
                  (''context'', getitem2 mb ''artifact'' ''context''),
                  (''name'', getitem2 mb ''artifact'' ''name''),
                  (''nsvc'', Inr (JStr nsvc)),
                  (''stream'', getitem2 mb ''artifact'' ''stream''),
                  (''version'', getitem2 mb ''artifact'' ''version''),
                  (''issuer'', getitem_get mb ''artifact'' ''issuer''),
                  (''rebuild'', getitem_get mb ''run'' ''rebuild''),
                  (''log'', getitem2 mb ''run'' ''log''),
                  (''system_os'', get_method sys ''os'' JNull),
                  (''system_provider'', get_method sys ''provider'' JNull),
                  (''ci_name'', get_method ci ''name'' JNull),
                  (''ci_url'', get_method ci ''url'' JNull),
                  (''ci_team'', get_method ci ''team'' JNull),
                  (''ci_irc'', get_method ci ''irc'' JNull),
                  (''ci_email'', get_method ci ''email'' JNull)])
                 (\<lambda>result_data. Inr (Some result_data)))
      | _ \<Rightarrow> Inl TypeError) = Inr (Some d)"
    unfolding umb_redhat_module_def by (auto dest!: bindE_Inr)
  from rest obtain s where s: "v = JStr s" by (cases v) simp_all
  from rest obtain nsvc where n: "nsvc_item s = Some nsvc"
    by (cases "nsvc_item s") (simp_all add: s)
  from rest obtain fs where "plain_dict ((''item'', Inr (JStr nsvc)) # fs) = Inr d"
    unfolding s json.case n option.case
    by (auto dest!: bindE_Inr)
  then have "getitem d ''item'' = Inr (JStr nsvc)"
    by (rule plain_dict_head)
  with v s n show ?thesis by blast
qed

lemma redhat_module_invalid:
  assumes "getitem2 mb ''artifact'' ''nsvc'' = Inr (JStr s)" "nsvc_match s = None"
  shows "umb_redhat_module mb sys it = (case getitem mb ''ci'' of Inl e \<Rightarrow> Inl e | Inr c \<Rightarrow> Inr None)"
  using assms by (simp add: umb_redhat_module_def nsvc_item_def split: sum.splits)

text \<open>
  Claim C3, as the code has it. For an NSVC \<^verbatim>\<open>name:stream:version:context\<close> whose four
  parts hold neither a colon nor a newline, the item is
  \<^verbatim>\<open>name-stream-version.context\<close> with every \<^verbatim>\<open>-\<close> of the stream replaced by
  \<^verbatim>\<open>_\<close> and the other three parts unchanged; every result the handler posts for a
  module message with that NSVC carries this item. The claim as stated leaves out the
  newline, which the dot of the pattern does not match.
\<close>

theorem nsvc_item_roundtrip:
  assumes "CHR '':'' \<notin> set name" "CHR '':'' \<notin> set stream" "CHR '':'' \<notin> set version"
    "CHR '':'' \<notin> set ctx"
    and "newline \<notin> set name" "newline \<notin> set stream" "newline \<notin> set version"
    "newline \<notin> set ctx"
  shows "nsvc_item (name @ '':'' @ stream @ '':'' @ version @ '':'' @ ctx)
           = Some (name @ ''-'' @ replace_char CHR ''-'' CHR ''_'' stream @ ''-'' @ version
                   @ ''.'' @ ctx)
     \<and> (getitem2 msg ''body'' ''msg'' = Inr mb \<and>
        getitem2 mb ''artifact'' ''type'' = Inr (JStr ''redhat-module'') \<and>
        getitem2 mb ''artifact'' ''nsvc''
          = Inr (JStr (name @ '':'' @ stream @ '':'' @ version @ '':'' @ ctx)) \<longrightarrow>
        list_all (\<lambda>r. getitem (r_data r) ''item''
                    = Inr (JStr (name @ ''-'' @ replace_char CHR ''-'' CHR ''_'' stream @ ''-''
                                 @ version @ ''.'' @ ctx)))
          (submissions (fst (handle_ci_umb env uuid4 msg))))"
proof -
  let ?s = "name @ '':'' @ stream @ '':'' @ version @ '':'' @ ctx"
  let ?item = "name @ ''-'' @ replace_char CHR ''-'' CHR ''_'' stream @ ''-'' @ version
                   @ ''.'' @ ctx"
  have item: "nsvc_item ?s = Some ?item"
    using nsvc_match_parts [OF assms] by (simp add: nsvc_item_def)
  have "list_all (\<lambda>r. getitem (r_data r) ''item'' = Inr (JStr ?item))
          (submissions (fst (handle_ci_umb env uuid4 msg)))"
    if mb: "getitem2 msg ''body'' ''msg'' = Inr mb"
      and ty: "getitem2 mb ''artifact'' ''type'' = Inr (JStr ''redhat-module'')"
      and ns: "getitem2 mb ''artifact'' ''nsvc'' = Inr (JStr ?s)"
  proof -
    have "sub_all (\<lambda>r. getitem (r_data r) ''item'' = Inr (JStr ?item))
            (handle_ci_umb env uuid4 msg)"
    proof (rule umb_submitted_data)
      fix mb' it sys0 rd0 rd1 rd
      assume mb': "getitem2 msg ''body'' ''msg'' = Inr mb'"
        and it: "getitem2 mb' ''artifact'' ''type'' = Inr it"
        and b: "umb_result_data env mb' (normalize_system sys0) it = Inr (Some rd0)"
        and r: "bindE (get_method mb' ''recipients'' (JList [])) (setitem rd0 ''recipients'')
                  = Inr rd1"
        and p: "update_publisher_id rd1 msg = Inr rd"
      from mb mb' have [simp]: "mb' = mb" by simp
      from ty it have [simp]: "it = JStr ''redhat-module''" by simp
      from b have "umb_redhat_module mb (normalize_system sys0) (JStr ''redhat-module'')
                     = Inr (Some rd0)"
        by (simp add: umb_result_data_def)
      from redhat_module_item [OF this] ns item
      have 0: "getitem rd0 ''item'' = Inr (JStr ?item)" by auto
      from r obtain v where s: "setitem rd0 ''recipients'' v = Inr rd1"
        by (auto dest!: bindE_Inr)
      have 1: "getitem rd1 ''item'' = getitem rd0 ''item''"
        by (rule getitem_setitem_other [OF s]) simp
      have 2: "getitem rd ''item'' = getitem rd1 ''item''"
        by (rule getitem_update_publisher_id [OF p]) simp
      show "getitem rd ''item'' = Inr (JStr ?item)" using 0 1 2 by simp
    qed
    then show ?thesis by (simp add: sub_all_def)
  qed
  with item show ?thesis by blast
qed

text \<open>A module build whose stream holds a hyphen.\<close>

theorem nsvc_item_roundtrip_witness:
  "nsvc_item ''perl:5.24-beta:20180515:6c81f848'' = Some ''perl-5.24_beta-20180515.6c81f848''
   \<and> submitted_items (fst (handle_ci_umb accepting_env ''u1''
        (umb_msg complete_topic (module_artifact ''perl:5.24-beta:20180515:6c81f848'')
           [(''status'', JStr ''PASS'')])))
      = [Inr (JStr ''perl-5.24_beta-20180515.6c81f848'')]"
proof -
  have items: "submitted_items (fst (handle_ci_umb accepting_env ''u1''
        (umb_msg complete_topic (module_artifact ''perl:5.24-beta:20180515:6c81f848'')
           [(''status'', JStr ''PASS'')])))
      = [Inr (JStr ''perl-5.24_beta-20180515.6c81f848'')]"
    by (simp add: umb_eval module_artifact_def submitted_items_def)
  from nsvc_item_roundtrip [where name = "''perl''" and stream = "''5.24-beta''"
      and version = "''20180515''" and ctx = "''6c81f848''"]
  have "nsvc_item ''perl:5.24-beta:20180515:6c81f848'' = Some ''perl-5.24_beta-20180515.6c81f848''"
    by (simp add: newline_def replace_char_def)
  with items show ?thesis by simp
qed

text \<open>Claim C3 as stated fails for a context that holds a newline: no part holds
  a colon, and the item stops at the newline.\<close>

theorem nsvc_newline_counterexample:
  "CHR '':'' \<notin> set (''6c81f848'' @ [newline] @ ''tail'')
   \<and> submitted_items (fst (handle_ci_umb accepting_env ''u1''
        (umb_msg complete_topic
           (module_artifact (''perl:5.24-beta:20180515:'' @ (''6c81f848'' @ [newline] @ ''tail'')))
           [(''status'', JStr ''PASS'')])))
      = [Inr (JStr ''perl-5.24_beta-20180515.6c81f848'')]
   \<and> ''perl-5.24_beta-20180515.6c81f848''
      \<noteq> ''perl-5.24_beta-20180515.'' @ (''6c81f848'' @ [newline] @ ''tail'')"
  by (simp add: umb_eval module_artifact_def submitted_items_def)


text \<open>
  Claim C4. For a module message whose NSVC is a string that the pattern does not
  match, as is every string with fewer than three colons: the handler posts nothing;
  and when the fields read before the NSVC are there (message id, run URL, an
  outcome, the \<^verbatim>\<open>ci\<close> mapping), it logs one error and returns \<^verbatim>\<open>False\<close> without
  raising.
\<close>

theorem invalid_nsvc_aborts:
  assumes "getitem2 msg ''body'' ''msg'' = Inr mb"
    and "getitem2 mb ''artifact'' ''type'' = Inr (JStr ''redhat-module'')"
    and "getitem2 mb ''artifact'' ''nsvc'' = Inr (JStr s)"
  shows "(colons s < 3 \<longrightarrow> nsvc_match s = None)
     \<and> (nsvc_match s = None \<longrightarrow>
          submissions (fst (handle_ci_umb env uuid4 msg)) = [] \<and>
          (getitem2 msg ''headers'' ''message-id'' = Inr mid \<and>
           getitem2 mb ''run'' ''url'' = Inr url \<and>
           test_result_outcome msg = Inr oc \<and>
           getitem mb ''ci'' = Inr ci \<longrightarrow>
           handle_ci_umb env uuid4 msg = ([LogError], Inr (JBool False))))"
proof -
  have quiet: "submissions (fst (handle_ci_umb env uuid4 msg)) = []" if no: "nsvc_match s = None"
  proof (rule no_submissions)
    show "sub_all (\<lambda>_. False) (handle_ci_umb env uuid4 msg)"
    proof (rule umb_submitted_data)
      fix mb' it sys0 rd0
      assume mb': "getitem2 msg ''body'' ''msg'' = Inr mb'"
        and it: "getitem2 mb' ''artifact'' ''type'' = Inr it"
        and b: "umb_result_data env mb' (normalize_system sys0) it = Inr (Some rd0)"
      from assms(1) mb' have [simp]: "mb' = mb" by simp
      from assms(2) it have [simp]: "it = JStr ''redhat-module''" by simp
      from b redhat_module_invalid [OF assms(3) no] show False
        by (simp add: umb_result_data_def split: sum.splits)
    qed
  qed
  have abort: "handle_ci_umb env uuid4 msg = ([LogError], Inr (JBool False))"
    if no: "nsvc_match s = None"
      and pre: "getitem2 msg ''headers'' ''message-id'' = Inr mid"
        "getitem2 mb ''run'' ''url'' = Inr url" "test_result_outcome msg = Inr oc"
        "getitem mb ''ci'' = Inr ci"
  proof -
    from pre(4) obtain kvs where mb: "mb = JDict kvs"
      by (cases mb) (simp_all add: getitem_def)
    have sys: "\<exists>sys0. get_method mb ''system'' (JDict []) = Inr sys0"
      by (simp add: mb get_method_def split: option.splits)
    then obtain sys0 where sys0: "get_method mb ''system'' (JDict []) = Inr sys0" by blast
    have "umb_result_data env mb (normalize_system sys0) (JStr ''redhat-module'') = Inr None"
      using redhat_module_invalid [OF assms(3) no] pre(4) by (simp add: umb_result_data_def)
    then show ?thesis
      using assms(1,2) pre(1-3) sys0
      by (simp add: handle_ci_umb_def Let_def return_io_def)
  qed
  from quiet abort nsvc_match_few_colons [of s] show ?thesis by blast
qed

text \<open>An NSVC of three parts.\<close>

theorem invalid_nsvc_aborts_witness:
  "colons ''perl:5.24-beta:20180515'' < 3
   \<and> nsvc_match ''perl:5.24-beta:20180515'' = None
   \<and> handle_ci_umb accepting_env ''u1''
        (umb_msg complete_topic (module_artifact ''perl:5.24-beta:20180515'')
           [(''status'', JStr ''PASS'')]) = ([LogError], Inr (JBool False))"
  using invalid_nsvc_aborts
    [where msg = "umb_msg complete_topic (module_artifact ''perl:5.24-beta:20180515'')
           [(''status'', JStr ''PASS'')]"
       and s = "''perl:5.24-beta:20180515''" and env = accepting_env and ?uuid4.0 = "''u1''"
       and mid = "JStr ''ID:1''" and url = "JStr ''https://ci/run/1''"
       and oc = "JStr ''PASSED''"]
  by (simp add: umb_msg_def module_artifact_def complete_topic_def getitem2_def getitem_def
      test_result_outcome_def as_str_def endswith_def lower_def lower_char_def
      broken_mapping_def colons_def)


lemma container_image_no_digest:
  assumes "getitem mb ''artifact'' = Inr (JDict a)" "map_of a ''digest'' = None"
  shows "umb_container_image env mb sys it = Inl KeyError"
  using assms
  by (simp add: umb_container_image_def getitem2_def getitem_def split: option.splits)

text \<open>
  Claim C5, as the code has it. A container-image message whose artifact has no
  \<^verbatim>\<open>digest\<close> key never gets as far as an item: the variant reads
  \<^verbatim>\<open>artifact['digest']\<close> and raises \<^verbatim>\<open>KeyError\<close>, so the handler ends in an
  exception (the \<^verbatim>\<open>KeyError\<close>, when the fields read earlier are there) with nothing
  logged and nothing posted.
\<close>

theorem container_image_without_digest:
  assumes "getitem2 msg ''body'' ''msg'' = Inr mb"
    and "getitem mb ''artifact'' = Inr (JDict a)"
    and "map_of a ''type'' = Some (JStr ''container-image'')"
    and "map_of a ''digest'' = None"
  shows "umb_container_image env mb sys (JStr ''container-image'') = Inl KeyError
     \<and> (\<exists>e. handle_ci_umb env uuid4 msg = ([], Inl e))
     \<and> (getitem2 msg ''headers'' ''message-id'' = Inr mid \<and>
        getitem2 mb ''run'' ''url'' = Inr url \<and>
        test_result_outcome msg = Inr oc \<longrightarrow>
        handle_ci_umb env uuid4 msg = ([], Inl KeyError))"
proof -
  note nd = container_image_no_digest [OF assms(2) assms(4)]
  have ty: "getitem2 mb ''artifact'' ''type'' = Inr (JStr ''container-image'')"
    using assms(2,3) by (simp add: getitem2_def getitem_def)
  from assms(2) obtain kvs where mb: "mb = JDict kvs"
    by (cases mb) (simp_all add: getitem_def)
  have "\<exists>sys0. get_method mb ''system'' (JDict []) = Inr sys0"
    by (simp add: mb get_method_def split: option.splits)
  then obtain sys0 where sys0: "get_method mb ''system'' (JDict []) = Inr sys0" by blast
  have rd: "umb_result_data env mb (normalize_system sys0) (JStr ''container-image'')
              = Inl KeyError"
    by (simp add: umb_result_data_def nd)
  have run: "handle_ci_umb env uuid4 msg =
     (case getitem2 msg ''headers'' ''message-id'' of Inl e \<Rightarrow> ([], Inl e) | Inr mid \<Rightarrow>
      case getitem2 mb ''run'' ''url'' of Inl e \<Rightarrow> ([], Inl e) | Inr url \<Rightarrow>
      case test_result_outcome msg of Inl e \<Rightarrow> ([], Inl e) | Inr oc \<Rightarrow> ([], Inl KeyError))"
    using assms(1) ty sys0 rd
    by (simp add: handle_ci_umb_def Let_def bind_lift split: sum.splits)
  have "\<exists>e. handle_ci_umb env uuid4 msg = ([], Inl e)"
    by (simp add: run split: sum.splits)
  moreover have "handle_ci_umb env uuid4 msg = ([], Inl KeyError)"
    if "getitem2 msg ''headers'' ''message-id'' = Inr mid" "getitem2 mb ''run'' ''url'' = Inr url"
      "test_result_outcome msg = Inr oc"
    using that by (simp add: run)
  ultimately show ?thesis using nd by blast
qed

text \<open>An image artifact that holds a repository and no digest.\<close>

theorem container_image_without_digest_witness:
  "handle_ci_umb accepting_env ''u1''
     (umb_msg complete_topic image_artifact_no_digest [(''status'', JStr ''PASS'')])
   = ([], Inl KeyError)"
  using container_image_without_digest
    [where msg = "umb_msg complete_topic image_artifact_no_digest [(''status'', JStr ''PASS'')]"
       and a = image_artifact_no_digest and env = accepting_env and ?uuid4.0 = "''u1''"
       and mid = "JStr ''ID:1''" and url = "JStr ''https://ci/run/1''"
       and oc = "JStr ''PASSED''"]
  by (simp add: umb_msg_def image_artifact_no_digest_def complete_topic_def getitem2_def
      getitem_def test_result_outcome_def as_str_def endswith_def lower_def lower_char_def
      broken_mapping_def)

text \<open>Claim C5 as stated fails: the handler raises, and no result with a
  \<^verbatim>\<open>repository\<close> is produced.\<close>

theorem missing_digest_counterexample:
  "getitem (JDict image_artifact_no_digest) ''digest'' = Inl KeyError
   \<and> snd (handle_ci_umb accepting_env ''u1''
        (umb_msg complete_topic image_artifact_no_digest [(''status'', JStr ''PASS'')]))
      = Inl KeyError
   \<and> submissions (fst (handle_ci_umb accepting_env ''u1''
        (umb_msg complete_topic image_artifact_no_digest [(''status'', JStr ''PASS'')]))) = []"
  by (simp add: umb_eval image_artifact_no_digest_def)

text \<open>
  Claim C6 at a module message whose artifact has neither \<^verbatim>\<open>id\<close> nor
  \<^verbatim>\<open>issuer\<close> and whose body has no \<^verbatim>\<open>system\<close>: the data posted holds the keys
  \<^verbatim>\<open>mbs_id\<close>, \<^verbatim>\<open>issuer\<close>, \<^verbatim>\<open>rebuild\<close>, \<^verbatim>\<open>system_os\<close>,
  \<^verbatim>\<open>system_provider\<close> and \<^verbatim>\<open>ci_irc\<close> with the value \<^verbatim>\<open>None\<close>. The dictionary
  display of the module variant (and of the default variant) has no filter, where the
  three other variants drop such values.
\<close>

theorem redhat_module_sends_null:
  "map r_data (submissions (fst (handle_ci_umb accepting_env ''u1''
     (umb_msg complete_topic (module_artifact ''perl:5.24-beta:20180515:6c81f848'')
        [(''status'', JStr ''PASS'')]))))
   = [JDict
       [(''item'', JStr ''perl-5.24_beta-20180515.6c81f848''),
        (''type'', JStr ''redhat-module''), (''mbs_id'', JNull),
        (''category'', JStr ''functional''), (''context'', JStr ''6c81f848''),
        (''name'', JStr ''perl''),
        (''nsvc'', JStr ''perl-5.24_beta-20180515.6c81f848''),
        (''stream'', JStr ''5.24-beta''), (''version'', JStr ''20180515''),
        (''issuer'', JNull), (''rebuild'', JNull),
        (''log'', JStr ''https://ci/run/1/log''), (''system_os'', JNull),
        (''system_provider'', JNull), (''ci_name'', JStr ''CI''),
        (''ci_url'', JStr ''https://ci''), (''ci_team'', JStr ''qe''),
        (''ci_irc'', JNull), (''ci_email'', JStr ''qe@example.com''),
        (''recipients'', JList []), (''publisher_id'', JStr ''ci-bot'')]]"
  by (simp add: umb_eval module_artifact_def)


section \<open>Item and type of the posted data\<close>

lemmas resultsdb_eval = handle_resultsdb_format_def resultsdb_msg_def getitem2_def getitem_def
  get_method_def rpmdiff_group_ref_url_def as_str_def startswith_def py_items_def
  bulk_result_def update_publisher_id_def setitem_def get_first_group_def py_len_def
  first_item_def create_result_def py_or_def accepting_env_def return_io_def emit_def
  Let_def bind_lift lift_io_def

text \<open>
  Claim C7, as the code has it. Every result the CI-metrics handler and the
  unified-bus handler post, for every message and whether or not the run ends in an
  exception, carries data with an \<^verbatim>\<open>item\<close> key and a \<^verbatim>\<open>type\<close> key. The
  resultsdb-format handler is left out: it posts the data of the message as it came.
\<close>

theorem result_data_item_and_type:
  "list_all (\<lambda>r. has_key ''item'' (r_data r) \<and> has_key ''type'' (r_data r))
     (submissions (fst (handle_ci_metrics env uuid4 msg)))
   \<and> list_all (\<lambda>r. has_key ''item'' (r_data r) \<and> has_key ''type'' (r_data r))
     (submissions (fst (handle_ci_umb env uuid4 msg)))"
proof -
  have "sub_all (\<lambda>r. has_key ''item'' (r_data r) \<and> has_key ''type'' (r_data r))
          (handle_ci_metrics env uuid4 msg)"
    by (rule sub_all_mono [OF handle_ci_metrics_sub_all]) simp
  with handle_ci_umb_keys [of env uuid4 msg] show ?thesis
    by (simp add: sub_all_def)
qed

text \<open>Three results of a CI-metrics message and one of a build message.\<close>

theorem result_data_item_and_type_witness:
  "length (submissions (fst (handle_ci_metrics accepting_env ''u1'' (ci_metrics_msg two_tests)))) = 3
   \<and> list_all (\<lambda>r. has_key ''item'' (r_data r) \<and> has_key ''type'' (r_data r))
       (submissions (fst (handle_ci_metrics accepting_env ''u1'' (ci_metrics_msg two_tests))))
   \<and> length (submissions (fst (handle_ci_umb accepting_env ''u1''
        (umb_msg complete_topic brew_build_artifact [(''status'', JStr ''PASS'')])))) = 1
   \<and> list_all (\<lambda>r. has_key ''item'' (r_data r) \<and> has_key ''type'' (r_data r))
       (submissions (fst (handle_ci_umb accepting_env ''u1''
        (umb_msg complete_topic brew_build_artifact [(''status'', JStr ''PASS'')]))))"
proof -
  have 1: "length (submissions (fst (handle_ci_metrics accepting_env ''u1''
             (ci_metrics_msg two_tests)))) = 3"
    by (simp add: ci_metrics_eval two_tests_def)
  have 2: "length (submissions (fst (handle_ci_umb accepting_env ''u1''
        (umb_msg complete_topic brew_build_artifact [(''status'', JStr ''PASS'')])))) = 1"
    by (simp add: umb_eval brew_build_artifact_def)
  from result_data_item_and_type [of accepting_env "''u1''" "ci_metrics_msg two_tests"]
    result_data_item_and_type [of accepting_env "''u1''"
      "umb_msg complete_topic brew_build_artifact [(''status'', JStr ''PASS'')]"]
    1 2
  show ?thesis by simp
qed

text \<open>Claim C7 as stated fails in the resultsdb-format pipeline: the data of the
  message has neither key, and it is posted as it is.\<close>

theorem resultsdb_format_counterexample:
  "map r_data (submissions (fst (handle_resultsdb_format accepting_env ''u1''
     (resultsdb_msg
        [(''testcase'', JDict [(''name'', JStr ''dist.abicheck''),
                               (''ref_url'', JStr ''https://ci/abicheck'')]),
         (''outcome'', JStr ''PASSED''), (''ref_url'', JStr ''https://ci/job/9''),
         (''data'', JDict [(''arch'', JStr ''x86_64'')])]))))
   = [JDict [(''arch'', JStr ''x86_64'')]]
   \<and> has_key ''item'' (JDict [(''arch'', JStr ''x86_64'')]) = False
   \<and> has_key ''type'' (JDict [(''arch'', JStr ''x86_64'')]) = False"
  by (simp add: resultsdb_eval has_key_def)


section \<open>Properties of the resultsdb-format pipeline\<close>















lemma sub_all_get_first_group [simp]: "sub_all P (get_first_group env d)"
  unfolding get_first_group_def
  by (intro sub_all_bind sub_all_emit sub_all_lift)








end
